theory Spec2Isabelle
  imports Complex_Main "HOL-Library.AList"
begin

section \<open>JavaScript values and strings\<close>

text \<open>
  The program is JavaScript. Strings are modelled as lists of 8-bit characters (code units
  0 to 255, read as Latin-1); the scores, counts and sizes that the orchestration core
  computes with are integers, the reported confidence is an IEEE 754 double with its
  rounding. Objects whose keys are data (parameter objects, tool outputs) are association
  lists in insertion order.
\<close>

datatype jsval =
    JUndefined
  | JNull
  | JBool bool
  | JNum int
  | JStr string
  | JArr "jsval list"
  | JObj "(string \<times> jsval) list"
  | JFunction

text \<open>\<open>JFunction\<close> stands for a function value (a method found on a prototype, say); the
  code in scope here never calls one, it can only pass it on.\<close>

text \<open>A thrown exception: the engine's \<open>TypeError\<close> or a plain \<open>Error\<close>, with its message.\<close>

datatype jsError = TypeError string | Error string

fun message :: "jsError \<Rightarrow> string" where
  "message (TypeError m) = m"
| "message (Error m) = m"

text \<open>A property name as the engine quotes it in a message.\<close>

definition quoted :: "string \<Rightarrow> string" where
  "quoted s = CHR 0x27 # s @ [CHR 0x27]"

text \<open>\<open>String.prototype.toLowerCase\<close> on code units below 256.\<close>

definition toLowerChar :: "char \<Rightarrow> char" where
  "toLowerChar c =
     (let n = (of_char c :: nat)
      in if (65 \<le> n \<and> n \<le> 90) \<or> (192 \<le> n \<and> n \<le> 222 \<and> n \<noteq> 215)
         then char_of (n + 32) else c)"

definition toLowerCase :: "string \<Rightarrow> string" where
  "toLowerCase s = map toLowerChar s"

fun startsWith :: "string \<Rightarrow> string \<Rightarrow> bool" where
  "startsWith s [] = True"
| "startsWith [] (p # ps) = False"
| "startsWith (c # cs) (p # ps) = (c = p \<and> startsWith cs ps)"

text \<open>\<open>String.prototype.includes\<close>: the argument occurs as a contiguous substring.\<close>

fun includesStr :: "string \<Rightarrow> string \<Rightarrow> bool" where
  "includesStr [] sub = (sub = [])"
| "includesStr (c # cs) sub = (startsWith (c # cs) sub \<or> includesStr cs sub)"

subsection \<open>The regular expressions of the analyzer\<close>

text \<open>\<open>\w\<close> is \<open>[A-Za-z0-9_]\<close>; \<open>\b\<close> holds between two positions exactly one of which
  carries a word character (the ends of the text count as non-word).\<close>

definition isWordChar :: "char \<Rightarrow> bool" where
  "isWordChar c =
     (let n = (of_char c :: nat)
      in (48 \<le> n \<and> n \<le> 57) \<or> (65 \<le> n \<and> n \<le> 90) \<or> (97 \<le> n \<and> n \<le> 122) \<or> n = 95)"

fun isWordOpt :: "char option \<Rightarrow> bool" where
  "isWordOpt None = False"
| "isWordOpt (Some c) = isWordChar c"

definition wordBoundary :: "char option \<Rightarrow> char option \<Rightarrow> bool" where
  "wordBoundary p n = (isWordOpt p \<noteq> isWordOpt n)"

fun headOpt :: "string \<Rightarrow> char option" where
  "headOpt [] = None"
| "headOpt (c # cs) = Some c"

fun lastOpt :: "string \<Rightarrow> char option" where
  "lastOpt [] = None"
| "lastOpt [c] = Some c"
| "lastOpt (c # cs) = lastOpt cs"

text \<open>An alternative \<open>a\<close> of a pattern \<open>\b(a1|a2|...)\b\<close> matches at the position whose
  previous character is \<open>p\<close> and whose remaining text is \<open>s\<close>.\<close>

definition altMatchesAt :: "char option \<Rightarrow> string \<Rightarrow> string \<Rightarrow> bool" where
  "altMatchesAt p s a =
     (startsWith s a \<and> wordBoundary p (headOpt s) \<and>
      wordBoundary (lastOpt a) (headOpt (drop (length a) s)))"

text \<open>\<open>pattern.test(text)\<close> for \<open>/\b(a1|a2|...)\b/i\<close> with lower-case alternatives: some
  position of the text matches some alternative. The \<open>i\<close> flag is modelled by lower-casing
  the text.\<close>

fun testFrom :: "string list \<Rightarrow> char option \<Rightarrow> string \<Rightarrow> bool" where
  "testFrom alts p [] = False"
| "testFrom alts p (c # cs) =
     (list_ex (altMatchesAt p (c # cs)) alts \<or> testFrom alts (Some c) cs)"

definition regexTest :: "string list \<Rightarrow> string \<Rightarrow> bool" where
  "regexTest alts text = testFrom alts None (toLowerCase text)"

text \<open>The file pattern \<open>/\b([\w-]+\.(csv|json|txt|md|py|js|html|css|xml|pdf))\b/g\<close>.
  The class \<open>[\w-]\<close> does not contain the dot, so of all the lengths the greedy \<open>+\<close> can
  back off to, only the maximal run can be followed by the literal dot.\<close>

definition fileExtensions :: "string list" where
  "fileExtensions =
     [''csv'', ''json'', ''txt'', ''md'', ''py'', ''js'', ''html'', ''css'', ''xml'', ''pdf'']"

definition isNameChar :: "char \<Rightarrow> bool" where
  "isNameChar c = (isWordChar c \<or> c = CHR ''-'')"

definition extMatches :: "string \<Rightarrow> string \<Rightarrow> bool" where
  "extMatches rest e =
     (startsWith rest e \<and> wordBoundary (lastOpt e) (headOpt (drop (length e) rest)))"

definition matchFileAt :: "char option \<Rightarrow> string \<Rightarrow> string option" where
  "matchFileAt p s =
     (if \<not> wordBoundary p (headOpt s) then None
      else let run = takeWhile isNameChar s; rest = dropWhile isNameChar s
           in if run = [] then None
              else (case rest of
                      [] \<Rightarrow> None
                    | d # rest' \<Rightarrow>
                        if d \<noteq> CHR ''.'' then None
                        else (case find (extMatches rest') fileExtensions of
                                None \<Rightarrow> None
                              | Some e \<Rightarrow> Some (run @ ''.'' @ e))))"

text \<open>\<open>query.matchAll\<close>: leftmost matches, each search resuming where the previous match
  ended. \<open>skip\<close> counts the characters of the current match still to be passed over.\<close>

fun scanFiles :: "char option \<Rightarrow> nat \<Rightarrow> string \<Rightarrow> string list" where
  "scanFiles p skip [] = []"
| "scanFiles p skip (c # cs) =
     (if 0 < skip then scanFiles (Some c) (skip - 1) cs
      else (case matchFileAt p (c # cs) of
              None \<Rightarrow> scanFiles (Some c) 0 cs
            | Some m \<Rightarrow> m # scanFiles (Some c) (length m - 1) cs))"

section \<open>Double-precision numbers\<close>

text \<open>
  A JavaScript number is an IEEE 754 double. The non-negative finite doubles are modelled
  as \<open>mant * 2 ^ expo\<close>. \<open>roundToDouble n d\<close> is the double nearest to the fraction \<open>n / d\<close>,
  ties going to the even mantissa: the mantissa is brought to 53 bits and the remainder
  decides the last bit. This is how a decimal literal becomes a double and how the exact sum
  of two doubles is rounded. Overflow and subnormal numbers are not modelled; the numbers
  of the program lie between 0 and 2.
\<close>

record double =
  mant :: nat
  expo :: int

definition dval :: "double \<Rightarrow> real" where
  "dval x = (if 0 \<le> expo x then real (mant x) * 2 ^ nat (expo x)
             else real (mant x) / 2 ^ nat (- expo x))"

function bitLength :: "nat \<Rightarrow> nat" where
  "bitLength n = (if n = 0 then 0 else Suc (bitLength (n div 2)))"
  by pat_completeness auto
termination
  by (relation "measure id") auto

declare bitLength.simps [simp del]

text \<open>The fraction \<open>n / (d * 2 ^ e)\<close> as a numerator and a denominator.\<close>

definition scaled :: "nat \<Rightarrow> nat \<Rightarrow> int \<Rightarrow> nat \<times> nat" where
  "scaled n d e = (if 0 \<le> e then (n, d * 2 ^ nat e) else (n * 2 ^ nat (- e), d))"

text \<open>\<open>n / d\<close> rounded to a multiple of \<open>2 ^ e\<close>, ties to even.\<close>

definition roundAt :: "nat \<Rightarrow> nat \<Rightarrow> int \<Rightarrow> double" where
  "roundAt n d e =
     (let (num, den) = scaled n d e;
          q = num div den;
          r = num mod den
      in \<lparr>mant = (if den < 2 * r \<or> (2 * r = den \<and> odd q) then q + 1 else q), expo = e\<rparr>)"

definition roundToDouble :: "nat \<Rightarrow> nat \<Rightarrow> double" where
  "roundToDouble n d =
     (if n = 0 then \<lparr>mant = 0, expo = 0\<rparr>
      else (let e = int (bitLength n) - int (bitLength d) - 53;
                (num, den) = scaled n d e
            in if num div den < 2 ^ 53 then roundAt n d e else roundAt n d (e + 1)))"

text \<open>The sum of two doubles: the exact sum, rounded.\<close>

definition fadd :: "double \<Rightarrow> double \<Rightarrow> double" where
  "fadd x y =
     (let e = min (expo x) (expo y);
          m = mant x * 2 ^ nat (expo x - e) + mant y * 2 ^ nat (expo y - e)
      in if 0 \<le> e then roundToDouble (m * 2 ^ nat e) 1 else roundToDouble m (2 ^ nat (- e)))"

definition fle :: "double \<Rightarrow> double \<Rightarrow> bool" where
  "fle x y =
     (let e = min (expo x) (expo y)
      in mant x * 2 ^ nat (expo x - e) \<le> mant y * 2 ^ nat (expo y - e))"

text \<open>\<open>Math.min\<close> on two such numbers.\<close>

definition fmin :: "double \<Rightarrow> double \<Rightarrow> double" where
  "fmin x y = (if fle x y then x else y)"

text \<open>The literals \<open>0\<close>, \<open>0.4\<close>, \<open>0.15\<close> and \<open>1.0\<close> of \<open>calculateConfidence\<close>.\<close>

definition lit_0 :: double where
  "lit_0 = roundToDouble 0 1"

definition lit_0_4 :: double where
  "lit_0_4 = roundToDouble 4 10"

definition lit_0_15 :: double where
  "lit_0_15 = roundToDouble 15 100"

definition lit_1_0 :: double where
  "lit_1_0 = roundToDouble 10 10"

section \<open>Data model\<close>

datatype intent =
    FILE_OPERATION
  | DATA_PROCESSING
  | CODE_GENERATION
  | VISUALIZATION
  | KNOWLEDGE_RETRIEVAL
  | TERMINAL_EXECUTION
  | WEB_SEARCH
  | UNKNOWN

text \<open>The string value of each member of \<open>INTENT_TYPES\<close>.\<close>

fun intentName :: "intent \<Rightarrow> string" where
  "intentName FILE_OPERATION = ''FILE_OPERATION''"
| "intentName DATA_PROCESSING = ''DATA_PROCESSING''"
| "intentName CODE_GENERATION = ''CODE_GENERATION''"
| "intentName VISUALIZATION = ''VISUALIZATION''"
| "intentName KNOWLEDGE_RETRIEVAL = ''KNOWLEDGE_RETRIEVAL''"
| "intentName TERMINAL_EXECUTION = ''TERMINAL_EXECUTION''"
| "intentName WEB_SEARCH = ''WEB_SEARCH''"
| "intentName UNKNOWN = ''UNKNOWN''"

record entities =
  files :: "string list"
  dataTypes :: "string list"
  codeLanguages :: "string list"
  visualizationTypes :: "string list"

text \<open>A tool's \<open>capabilities\<close> object. Every property may be absent (\<open>None\<close>). Entries of
  \<open>capabilities.intents\<close> that are not members of \<open>INTENT_TYPES\<close> can never equal a
  detected intent and are not represented.\<close>

record capabilities =
  cap_intents :: "intent list option"
  cap_fileTypes :: "string list option"
  cap_dataTypes :: "string list option"
  cap_languages :: "string list option"
  cap_visualizationTypes :: "string list option"

record execConfig =
  cfg_type :: "string option"
  cfg_url :: "string option"
  cfg_command :: "string option"

type_synonym params = "(string \<times> jsval) list"

text \<open>A tool descriptor. A property that the JavaScript object lacks is \<open>None\<close>. The
  \<open>execute\<close> property, when it is a function, is a handler from the input parameters to
  a returned value or a thrown error.\<close>

record tool =
  tool_id :: "string option"
  tool_name :: "string option"
  tool_version :: "string option"
  tool_description :: "string option"
  tool_type :: "string option"
  apiEndpoint :: "string option"
  tool_capabilities :: "capabilities option"
  defaultParams :: "params option"
  outputs :: "jsval option"
  executionConfig :: "execConfig option"
  execute :: "(params \<Rightarrow> jsError + jsval) option"

record matchedTool =
  mt_tool :: tool
  mt_score :: int

record analysis =
  an_query :: string
  an_intents :: "intent list"
  an_entities :: entities
  an_matchedTools :: "matchedTool list"
  an_confidence :: double

section \<open>Analyzer\<close>

text \<open>The statement \<open>if (cond) list.push(x)\<close>.\<close>

definition pushIf :: "bool \<Rightarrow> 'a \<Rightarrow> 'a list \<Rightarrow> 'a list" where
  "pushIf cond x xs = (if cond then xs @ [x] else xs)"

text \<open>The seven keyword tests of \<open>analyzeRequest\<close>, each pushing its intent.\<close>

definition keywordIntents :: "string \<Rightarrow> intent list" where
  "keywordIntents lowerQuery =
     (let intents0 = [];
          intents1 = pushIf (includesStr lowerQuery ''file'' \<or> includesStr lowerQuery ''read'' \<or>
                         includesStr lowerQuery ''write'' \<or> includesStr lowerQuery ''save'' \<or>
                         includesStr lowerQuery ''load'' \<or> includesStr lowerQuery ''csv'' \<or>
                         includesStr lowerQuery ''json'' \<or> includesStr lowerQuery ''txt'')
                        FILE_OPERATION intents0;
          intents2 = pushIf (includesStr lowerQuery ''process'' \<or> includesStr lowerQuery ''transform'' \<or>
                         includesStr lowerQuery ''extract'' \<or> includesStr lowerQuery ''convert'' \<or>
                         includesStr lowerQuery ''analyze'' \<or> includesStr lowerQuery ''calculate'')
                        DATA_PROCESSING intents1;
          intents3 = pushIf (includesStr lowerQuery ''code'' \<or> includesStr lowerQuery ''program'' \<or>
                         includesStr lowerQuery ''function'' \<or> includesStr lowerQuery ''script'' \<or>
                         includesStr lowerQuery ''algorithm'' \<or> includesStr lowerQuery ''develop'')
                        CODE_GENERATION intents2;
          intents4 = pushIf (includesStr lowerQuery ''visualize'' \<or> includesStr lowerQuery ''chart'' \<or>
                         includesStr lowerQuery ''plot'' \<or> includesStr lowerQuery ''graph'' \<or>
                         includesStr lowerQuery ''dashboard'' \<or> includesStr lowerQuery ''display'')
                        VISUALIZATION intents3;
          intents5 = pushIf (includesStr lowerQuery ''search'' \<or> includesStr lowerQuery ''find'' \<or>
                         includesStr lowerQuery ''lookup'' \<or> includesStr lowerQuery ''retrieve'' \<or>
                         includesStr lowerQuery ''get information'')
                        KNOWLEDGE_RETRIEVAL intents4;
          intents6 = pushIf (includesStr lowerQuery ''run'' \<or> includesStr lowerQuery ''execute'' \<or>
                         includesStr lowerQuery ''terminal'' \<or> includesStr lowerQuery ''command'' \<or>
                         includesStr lowerQuery ''shell'' \<or> includesStr lowerQuery ''bash'')
                        TERMINAL_EXECUTION intents5;
          intents7 = pushIf (includesStr lowerQuery ''web'' \<or> includesStr lowerQuery ''internet'' \<or>
                         includesStr lowerQuery ''online'' \<or> includesStr lowerQuery ''website'' \<or>
                         includesStr lowerQuery ''url'' \<or> includesStr lowerQuery ''http'')
                        WEB_SEARCH intents6
      in intents7)"

text \<open>The fallback to \<open>UNKNOWN\<close> when no intent was pushed.\<close>

definition detectIntents :: "string \<Rightarrow> intent list" where
  "detectIntents lowerQuery =
     (let intents = keywordIntents lowerQuery
      in if length intents = 0 then intents @ [UNKNOWN] else intents)"

definition extractFileReferences :: "string \<Rightarrow> string list" where
  "extractFileReferences query = scanFiles None 0 query"

definition extractDataTypes :: "string \<Rightarrow> string list" where
  "extractDataTypes query =
     (let lowerQuery = toLowerCase query;
          t0 = [];
          t1 = pushIf (includesStr lowerQuery ''csv'' \<or> includesStr lowerQuery ''spreadsheet'' \<or>
                   includesStr lowerQuery ''excel'' \<or> includesStr lowerQuery ''table'')
                        ''tabular'' t0;
          t2 = pushIf (includesStr lowerQuery ''json'' \<or> includesStr lowerQuery ''object'' \<or>
                   includesStr lowerQuery ''dictionary'')
                        ''json'' t1;
          t3 = pushIf (includesStr lowerQuery ''text'' \<or> includesStr lowerQuery ''string'' \<or>
                   includesStr lowerQuery ''document'')
                        ''text'' t2;
          t4 = pushIf (includesStr lowerQuery ''image'' \<or> includesStr lowerQuery ''picture'' \<or>
                   includesStr lowerQuery ''photo'' \<or> includesStr lowerQuery ''graphic'')
                        ''image'' t3
      in t4)"

definition languagePatterns :: "(string list \<times> string) list" where
  "languagePatterns =
     [([''python'', ''py''], ''python''),
      ([''javascript'', ''js'', ''node''], ''javascript''),
      ([''typescript'', ''ts''], ''typescript''),
      ([''java''], ''java''),
      ([''c++'', ''cpp''], ''cpp''),
      ([''c#'', ''csharp''], ''csharp''),
      ([''ruby'', ''rb''], ''ruby''),
      ([''go'', ''golang''], ''go''),
      ([''php''], ''php''),
      ([''sql''], ''sql''),
      ([''bash'', ''shell''], ''bash''),
      ([''rust''], ''rust''),
      ([''html''], ''html''),
      ([''css''], ''css'')]"

definition extractCodeLanguages :: "string \<Rightarrow> string list" where
  "extractCodeLanguages query =
     (let lowerQuery = toLowerCase query
      in map snd (filter (\<lambda>(pattern, language). regexTest pattern lowerQuery) languagePatterns))"

definition extractVisualizationTypes :: "string \<Rightarrow> string list" where
  "extractVisualizationTypes query =
     (let lowerQuery = toLowerCase query;
          t0 = [];
          t1 = pushIf (includesStr lowerQuery ''bar'' \<or> includesStr lowerQuery ''column'')
                        ''bar_chart'' t0;
          t2 = pushIf (includesStr lowerQuery ''line'' \<or> includesStr lowerQuery ''trend'')
                        ''line_chart'' t1;
          t3 = pushIf (includesStr lowerQuery ''pie'' \<or> includesStr lowerQuery ''donut'')
                        ''pie_chart'' t2;
          t4 = pushIf (includesStr lowerQuery ''scatter'' \<or> includesStr lowerQuery ''point'')
                        ''scatter_plot'' t3;
          t5 = pushIf (includesStr lowerQuery ''heatmap'' \<or> includesStr lowerQuery ''heat map'')
                        ''heatmap'' t4;
          t6 = pushIf (includesStr lowerQuery ''histogram'')
                        ''histogram'' t5;
          t7 = pushIf (includesStr lowerQuery ''box plot'' \<or> includesStr lowerQuery ''boxplot'')
                        ''box_plot'' t6
      in t7)"

text \<open>\<open>file.split('.').pop()\<close>: the text after the last dot, the whole text when there is
  no dot.\<close>

fun lastSegment :: "string \<Rightarrow> string \<Rightarrow> string" where
  "lastSegment acc [] = acc"
| "lastSegment acc (c # cs) = (if c = CHR ''.'' then lastSegment [] cs else lastSegment (acc @ [c]) cs)"

definition fileExtension :: "string \<Rightarrow> string" where
  "fileExtension file = lastSegment [] file"

text \<open>\<open>calculateToolMatchScore\<close>: each of the four blocks runs only when the tool has
  capabilities and the capability list in question.\<close>

definition capList :: "tool \<Rightarrow> (capabilities \<Rightarrow> 'a list option) \<Rightarrow> 'a list option" where
  "capList t field = (case tool_capabilities t of None \<Rightarrow> None | Some c \<Rightarrow> field c)"

definition calculateToolMatchScore :: "tool \<Rightarrow> entities \<Rightarrow> int" where
  "calculateToolMatchScore t ents =
     (let score0 = 0;
          score1 = (case capList t cap_fileTypes of
                      None \<Rightarrow> score0
                    | Some fts \<Rightarrow>
                        score0 + int (length (filter (\<lambda>file. toLowerCase (fileExtension file) \<in> set fts)
                                                (files ents))) * 10);
          score2 = (case capList t cap_dataTypes of
                      None \<Rightarrow> score1
                    | Some dts \<Rightarrow>
                        score1 + int (length (filter (\<lambda>ty. ty \<in> set dts) (dataTypes ents))) * 5);
          score3 = (case capList t cap_languages of
                      None \<Rightarrow> score2
                    | Some ls \<Rightarrow>
                        score2 + int (length (filter (\<lambda>lang. lang \<in> set ls) (codeLanguages ents))) * 8);
          score4 = (case capList t cap_visualizationTypes of
                      None \<Rightarrow> score3
                    | Some vs \<Rightarrow>
                        score3 + int (length (filter (\<lambda>ty. ty \<in> set vs) (visualizationTypes ents))) * 7)
      in score4)"

text \<open>The \<open>intents.some(...)\<close> test of \<open>matchToolsToIntents\<close>.\<close>

definition supportsIntent :: "tool \<Rightarrow> intent \<Rightarrow> bool" where
  "supportsIntent t i =
     (case capList t cap_intents of None \<Rightarrow> False | Some is \<Rightarrow> i \<in> set is)"

definition intentMatch :: "tool \<Rightarrow> intent list \<Rightarrow> bool" where
  "intentMatch t intents = list_ex (supportsIntent t) intents"

text \<open>\<open>Array.prototype.sort\<close> with the comparator \<open>(a, b) => b.score - a.score\<close>: a stable
  sort by descending score.\<close>

definition sortByScoreDesc :: "matchedTool list \<Rightarrow> matchedTool list" where
  "sortByScoreDesc ms = sort_key (\<lambda>m. - mt_score m) ms"

fun collectMatches :: "tool list \<Rightarrow> intent list \<Rightarrow> entities \<Rightarrow> matchedTool list" where
  "collectMatches [] intents ents = []"
| "collectMatches (t # ts) intents ents =
     (if intentMatch t intents
      then (let score = calculateToolMatchScore t ents
            in if 0 < score
               then \<lparr>mt_tool = t, mt_score = score\<rparr> # collectMatches ts intents ents
               else collectMatches ts intents ents)
      else collectMatches ts intents ents)"

text \<open>\<open>matchToolsToIntents\<close> reads the registry's tool list, here the first argument.\<close>

definition matchToolsToIntents :: "tool list \<Rightarrow> intent list \<Rightarrow> entities \<Rightarrow> matchedTool list" where
  "matchToolsToIntents allTools intents ents = sortByScoreDesc (collectMatches allTools intents ents)"

text \<open>The statement \<open>if (cond) confidence += x\<close>.\<close>

definition addIf :: "bool \<Rightarrow> double \<Rightarrow> double \<Rightarrow> double" where
  "addIf cond x confidence = (if cond then fadd confidence x else confidence)"

definition calculateConfidence :: "intent list \<Rightarrow> entities \<Rightarrow> double" where
  "calculateConfidence intents ents =
     (let c0 = lit_0;
          c1 = addIf (UNKNOWN \<notin> set intents) lit_0_4 c0;
          c2 = addIf (0 < length (files ents)) lit_0_15 c1;
          c3 = addIf (0 < length (dataTypes ents)) lit_0_15 c2;
          c4 = addIf (0 < length (codeLanguages ents)) lit_0_15 c3;
          c5 = addIf (0 < length (visualizationTypes ents)) lit_0_15 c4
      in fmin c5 lit_1_0)"

definition extractEntities :: "string \<Rightarrow> entities" where
  "extractEntities query =
     \<lparr>files = extractFileReferences query,
      dataTypes = extractDataTypes query,
      codeLanguages = extractCodeLanguages query,
      visualizationTypes = extractVisualizationTypes query\<rparr>"

text \<open>\<open>analyzeRequest\<close>; the registry content is the first argument, the \<open>timestamp\<close>
  field (a clock read) is left out.\<close>

definition analyzeRequest :: "tool list \<Rightarrow> string \<Rightarrow> analysis" where
  "analyzeRequest allTools query =
     (let lowerQuery = toLowerCase query;
          intents = detectIntents lowerQuery;
          ents = extractEntities query;
          matched = matchToolsToIntents allTools intents ents
      in \<lparr>an_query = query,
          an_intents = intents,
          an_entities = ents,
          an_matchedTools = matched,
          an_confidence = calculateConfidence intents ents\<rparr>)"

section \<open>Registry\<close>

text \<open>The registry is the array \<open>this.tools\<close>, passed and returned explicitly.
  \<open>Object.assign(target, source)\<close> copies every property the source has; a property
  the source lacks keeps the target's value.\<close>

definition orElse :: "'a option \<Rightarrow> 'a option \<Rightarrow> 'a option" where
  "orElse new old = (case new of None \<Rightarrow> old | Some v \<Rightarrow> Some v)"

definition assign :: "tool \<Rightarrow> tool \<Rightarrow> tool" where
  "assign target source =
     \<lparr>tool_id = orElse (tool_id source) (tool_id target),
      tool_name = orElse (tool_name source) (tool_name target),
      tool_version = orElse (tool_version source) (tool_version target),
      tool_description = orElse (tool_description source) (tool_description target),
      tool_type = orElse (tool_type source) (tool_type target),
      apiEndpoint = orElse (apiEndpoint source) (apiEndpoint target),
      tool_capabilities = orElse (tool_capabilities source) (tool_capabilities target),
      defaultParams = orElse (defaultParams source) (defaultParams target),
      outputs = orElse (outputs source) (outputs target),
      executionConfig = orElse (executionConfig source) (executionConfig target),
      execute = orElse (execute source) (execute target)\<rparr>"

text \<open>\<open>registerTool\<close>: the first entry whose id equals the new tool's id (two missing ids
  are equal, as \<open>undefined === undefined\<close>) is updated in place; without such an entry the
  tool is pushed at the end.\<close>

fun registerTool :: "tool list \<Rightarrow> tool \<Rightarrow> tool list" where
  "registerTool [] new = [new]"
| "registerTool (t # ts) new =
     (if tool_id t = tool_id new then assign t new # ts else t # registerTool ts new)"

text \<open>The id derivation at the start of \<open>generateToolDefinition\<close> (the tool-file
  generator): \<open>name.toLowerCase().replace(/[^a-z0-9]+/g, '-')\<close> when the id is falsy.\<close>

definition isSlugChar :: "char \<Rightarrow> bool" where
  "isSlugChar c =
     (let n = (of_char c :: nat) in (97 \<le> n \<and> n \<le> 122) \<or> (48 \<le> n \<and> n \<le> 57))"

fun replaceRuns :: "bool \<Rightarrow> string \<Rightarrow> string" where
  "replaceRuns inRun [] = []"
| "replaceRuns inRun (c # cs) =
     (if isSlugChar c then c # replaceRuns False cs
      else if inRun then replaceRuns True cs
      else CHR ''-'' # replaceRuns True cs)"

definition slugify :: "string \<Rightarrow> string" where
  "slugify name = replaceRuns False (toLowerCase name)"

definition truthyStr :: "string option \<Rightarrow> bool" where
  "truthyStr s = (case s of None \<Rightarrow> False | Some v \<Rightarrow> v \<noteq> [])"

definition generateToolDefinition_id :: "tool \<Rightarrow> jsError + tool" where
  "generateToolDefinition_id definition =
     (if \<not> truthyStr (tool_id definition)
      then (case tool_name definition of
              None \<Rightarrow> Inl (TypeError (''Cannot read properties of undefined (reading '' @ quoted ''toLowerCase'' @ '')''))
            | Some name \<Rightarrow> Inr (definition\<lparr>tool_id := Some (slugify name)\<rparr>))
      else Inr definition)"

section \<open>Orchestrator\<close>

record planStep =
  stepId :: string
  st_intent :: intent
  toolId :: "string option"
  toolName :: "string option"
  inputParams :: params
  outputParams :: jsval

record mapping =
  fromParam :: string
  toParam :: string

record flow =
  df_from :: string
  df_to :: string
  mappings :: "mapping list"

record suggestion =
  sg_intent :: intent
  sg_description :: string
  sg_template :: tool

text \<open>An execution plan. The plan returned when no tool matched has only \<open>canExecute\<close>,
  \<open>reason\<close> and \<open>suggestedTools\<close>; the properties it lacks are \<open>None\<close>. The \<open>timestamp\<close>
  field is left out.\<close>

record plan =
  planId :: "string option"
  canExecute :: bool
  reason :: "string option"
  steps :: "planStep list option"
  dataFlow :: "(string \<times> flow) list option"
  unaddressedIntents :: "intent list option"
  suggestedTools :: "suggestion list option"

text \<open>Decimal rendering of a non-negative integer, as a template literal renders it.\<close>

definition digitChar :: "nat \<Rightarrow> char" where
  "digitChar d = ''0123456789'' ! d"

function showNat :: "nat \<Rightarrow> string" where
  "showNat n = (if n < 10 then [digitChar n] else showNat (n div 10) @ [digitChar (n mod 10)])"
  by pat_completeness auto
termination
  by (relation "measure id") auto

declare showNat.simps [simp del]

definition findBestToolForIntent :: "intent \<Rightarrow> matchedTool list \<Rightarrow> matchedTool option" where
  "findBestToolForIntent i matched =
     (let toolsForIntent = filter (\<lambda>m. supportsIntent (mt_tool m) i) matched;
          sorted = sortByScoreDesc toolsForIntent
      in (case sorted of [] \<Rightarrow> None | m # rest \<Rightarrow> Some m))"

text \<open>The \<open>switch\<close> of \<open>determineInputParams\<close>: the parameters derived from the entities.\<close>

definition firstAs :: "string \<Rightarrow> string list \<Rightarrow> params" where
  "firstAs key xs = (case xs of [] \<Rightarrow> [] | x # rest \<Rightarrow> [(key, JStr x)])"

fun entityParams :: "intent \<Rightarrow> entities \<Rightarrow> params" where
  "entityParams FILE_OPERATION ents = firstAs ''filePath'' (files ents)"
| "entityParams DATA_PROCESSING ents =
     firstAs ''inputFile'' (files ents) @ firstAs ''dataType'' (dataTypes ents)"
| "entityParams CODE_GENERATION ents = firstAs ''language'' (codeLanguages ents)"
| "entityParams VISUALIZATION ents =
     firstAs ''dataSource'' (files ents) @ firstAs ''visualizationType'' (visualizationTypes ents)"
| "entityParams KNOWLEDGE_RETRIEVAL ents = []"
| "entityParams TERMINAL_EXECUTION ents = []"
| "entityParams WEB_SEARCH ents = []"
| "entityParams UNKNOWN ents = []"

text \<open>The object spread \<open>{ ...a, ...b }\<close>: the keys of \<open>a\<close> in their order, each carrying
  the value of \<open>b\<close> where \<open>b\<close> has the key, then the remaining keys of \<open>b\<close>.\<close>

definition spread :: "params \<Rightarrow> params \<Rightarrow> params" where
  "spread a b = fold (\<lambda>(k, v). AList.update k v) b a"

definition determineInputParams :: "intent \<Rightarrow> entities \<Rightarrow> tool \<Rightarrow> params" where
  "determineInputParams i ents t =
     (let params = entityParams i ents
      in (case defaultParams t of
            Some dflt \<Rightarrow> spread dflt params
          | None \<Rightarrow> params))"

fun truthy :: "jsval \<Rightarrow> bool" where
  "truthy JUndefined = False"
| "truthy JNull = False"
| "truthy (JBool b) = b"
| "truthy (JNum n) = (n \<noteq> 0)"
| "truthy (JStr s) = (s \<noteq> [])"
| "truthy (JArr xs) = True"
| "truthy (JObj kvs) = True"
| "truthy JFunction = True"

fun genericOutputs :: "intent \<Rightarrow> jsval" where
  "genericOutputs FILE_OPERATION = JObj [(''success'', JBool True), (''filePath'', JStr [])]"
| "genericOutputs DATA_PROCESSING = JObj [(''success'', JBool True), (''result'', JObj [])]"
| "genericOutputs CODE_GENERATION = JObj [(''success'', JBool True), (''code'', JStr [])]"
| "genericOutputs VISUALIZATION = JObj [(''success'', JBool True), (''visualizationPath'', JStr [])]"
| "genericOutputs KNOWLEDGE_RETRIEVAL = JObj [(''success'', JBool True), (''knowledge'', JObj [])]"
| "genericOutputs TERMINAL_EXECUTION = JObj [(''success'', JBool True), (''output'', JStr [])]"
| "genericOutputs WEB_SEARCH = JObj [(''success'', JBool True), (''results'', JArr [])]"
| "genericOutputs UNKNOWN = JObj [(''success'', JBool True)]"

definition determineOutputParams :: "intent \<Rightarrow> tool \<Rightarrow> jsval" where
  "determineOutputParams i t =
     (case outputs t of
        Some out \<Rightarrow> if truthy out then out else genericOutputs i
      | None \<Rightarrow> genericOutputs i)"

definition resultToInput :: "mapping list" where
  "resultToInput = [\<lparr>fromParam = ''result'', toParam = ''input''\<rparr>]"

definition flowKey :: "string \<Rightarrow> string \<Rightarrow> string" where
  "flowKey a b = a @ '':'' @ b"

text \<open>\<open>createDataFlowMap\<close>: for each pair of neighbouring steps an assignment
  \<open>dataFlow[key] = edge\<close>; assigning to a key that exists replaces its value in place.\<close>

fun addFlows :: "planStep list \<Rightarrow> (string \<times> flow) list \<Rightarrow> (string \<times> flow) list" where
  "addFlows (currentStep # nextStep # rest) df =
     addFlows (nextStep # rest)
       (AList.update (flowKey (stepId currentStep) (stepId nextStep))
          \<lparr>df_from = stepId currentStep, df_to = stepId nextStep, mappings = resultToInput\<rparr> df)"
| "addFlows [s] df = df"
| "addFlows [] df = df"

definition createDataFlowMap :: "planStep list \<Rightarrow> (string \<times> flow) list" where
  "createDataFlowMap sts = addFlows sts []"

text \<open>\<open>generatePlanId\<close>; the clock value and the random draw (already multiplied and
  floored) are arguments.\<close>

definition generatePlanId :: "nat \<Rightarrow> nat \<Rightarrow> string" where
  "generatePlanId now rnd = ''plan_'' @ showNat now @ ''_'' @ showNat rnd"

subsection \<open>Suggestions for tools to create\<close>

text \<open>\<open>String.prototype.replace\<close> with a string pattern of one character: only the first
  occurrence is replaced.\<close>

fun replaceFirst :: "char \<Rightarrow> char \<Rightarrow> string \<Rightarrow> string" where
  "replaceFirst a b [] = []"
| "replaceFirst a b (c # cs) = (if c = a then b # cs else c # replaceFirst a b cs)"

fun splitOn :: "char \<Rightarrow> string \<Rightarrow> string \<Rightarrow> string list" where
  "splitOn sep acc [] = [acc]"
| "splitOn sep acc (c # cs) =
     (if c = sep then acc # splitOn sep [] cs else splitOn sep (acc @ [c]) cs)"

fun joinWith :: "string \<Rightarrow> string list \<Rightarrow> string" where
  "joinWith sep [] = []"
| "joinWith sep [x] = x"
| "joinWith sep (x # y # rest) = x @ sep @ joinWith sep (y # rest)"

text \<open>\<open>[...new Set(xs)]\<close>: the first occurrence of each value, in order.\<close>

fun uniqFrom :: "string list \<Rightarrow> string list \<Rightarrow> string list" where
  "uniqFrom seen [] = seen"
| "uniqFrom seen (x # xs) = (if x \<in> set seen then uniqFrom seen xs else uniqFrom (seen @ [x]) xs)"

definition capitalizeWord :: "string \<Rightarrow> string" where
  "capitalizeWord w = (case w of [] \<Rightarrow> [] | c # cs \<Rightarrow> c # toLowerCase cs)"

definition spokenIntent :: "intent \<Rightarrow> string" where
  "spokenIntent i = replaceFirst (CHR ''_'') (CHR '' '') (toLowerCase (intentName i))"

definition baseTemplate :: "intent \<Rightarrow> tool" where
  "baseTemplate i =
     \<lparr>tool_id = Some (toLowerCase (intentName i) @ ''_tool''),
      tool_name = Some (joinWith '' '' (map capitalizeWord (splitOn (CHR ''_'') [] (intentName i))) @ '' Tool''),
      tool_version = Some ''0.1.0'',
      tool_description = Some (''A tool for '' @ spokenIntent i),
      tool_type = None,
      apiEndpoint = None,
      tool_capabilities = Some \<lparr>cap_intents = Some [i], cap_fileTypes = None, cap_dataTypes = None,
                                 cap_languages = None, cap_visualizationTypes = None\<rparr>,
      defaultParams = Some [],
      outputs = Some (JObj []),
      executionConfig = None,
      execute = None\<rparr>"

definition withCaps :: "tool \<Rightarrow> (capabilities \<Rightarrow> capabilities) \<Rightarrow> tool" where
  "withCaps t f = t\<lparr>tool_capabilities := map_option f (tool_capabilities t)\<rparr>"

fun generateToolTemplate :: "intent \<Rightarrow> entities \<Rightarrow> tool" where
  "generateToolTemplate FILE_OPERATION ents =
     (withCaps (baseTemplate FILE_OPERATION) (\<lambda>c. c\<lparr>cap_fileTypes := Some (map fileExtension (files ents))\<rparr>))
       \<lparr>defaultParams := Some [(''filePath'', JStr [])],
        outputs := Some (JObj [(''success'', JBool True), (''filePath'', JStr [])])\<rparr>"
| "generateToolTemplate DATA_PROCESSING ents =
     (withCaps (baseTemplate DATA_PROCESSING) (\<lambda>c. c\<lparr>cap_dataTypes := Some (dataTypes ents)\<rparr>))
       \<lparr>defaultParams := Some [(''inputData'', JObj [])],
        outputs := Some (JObj [(''success'', JBool True), (''result'', JObj [])])\<rparr>"
| "generateToolTemplate CODE_GENERATION ents =
     (withCaps (baseTemplate CODE_GENERATION) (\<lambda>c. c\<lparr>cap_languages := Some (codeLanguages ents)\<rparr>))
       \<lparr>defaultParams := Some [(''prompt'', JStr [])],
        outputs := Some (JObj [(''success'', JBool True), (''code'', JStr [])])\<rparr>"
| "generateToolTemplate VISUALIZATION ents =
     (withCaps (baseTemplate VISUALIZATION) (\<lambda>c. c\<lparr>cap_visualizationTypes := Some (visualizationTypes ents)\<rparr>))
       \<lparr>defaultParams := Some [(''data'', JObj [])],
        outputs := Some (JObj [(''success'', JBool True), (''visualizationPath'', JStr [])])\<rparr>"
| "generateToolTemplate KNOWLEDGE_RETRIEVAL ents =
     (baseTemplate KNOWLEDGE_RETRIEVAL)
       \<lparr>defaultParams := Some [(''query'', JStr [])],
        outputs := Some (JObj [(''success'', JBool True), (''knowledge'', JObj [])])\<rparr>"
| "generateToolTemplate TERMINAL_EXECUTION ents =
     (baseTemplate TERMINAL_EXECUTION)
       \<lparr>defaultParams := Some [(''command'', JStr [])],
        outputs := Some (JObj [(''success'', JBool True), (''output'', JStr [])])\<rparr>"
| "generateToolTemplate WEB_SEARCH ents =
     (baseTemplate WEB_SEARCH)
       \<lparr>defaultParams := Some [(''query'', JStr [])],
        outputs := Some (JObj [(''success'', JBool True), (''results'', JArr [])])\<rparr>"
| "generateToolTemplate UNKNOWN ents = baseTemplate UNKNOWN"

definition describeIntent :: "intent \<Rightarrow> entities \<Rightarrow> string" where
  "describeIntent i ents =
     (let d0 = ''A tool that can handle '' @ spokenIntent i;
          d1 = (if i = FILE_OPERATION \<and> 0 < length (files ents)
                then d0 @ '' for '' @ joinWith '', '' (uniqFrom [] (map fileExtension (files ents))) @ '' files''
                else d0);
          d2 = (if i = DATA_PROCESSING \<and> 0 < length (dataTypes ents)
                then d1 @ '' with '' @ joinWith '', '' (dataTypes ents) @ '' data''
                else d1);
          d3 = (if i = CODE_GENERATION \<and> 0 < length (codeLanguages ents)
                then d2 @ '' in '' @ joinWith '', '' (codeLanguages ents)
                else d2);
          d4 = (if i = VISUALIZATION \<and> 0 < length (visualizationTypes ents)
                then d3 @ '' for '' @ joinWith '', '' (visualizationTypes ents) @ '' visualizations''
                else d3)
      in d4)"

fun suggestToolsToCreate :: "intent list \<Rightarrow> entities \<Rightarrow> suggestion list" where
  "suggestToolsToCreate [] ents = []"
| "suggestToolsToCreate (i # rest) ents =
     (if i = UNKNOWN then suggestToolsToCreate rest ents
      else \<lparr>sg_intent = i, sg_description = describeIntent i ents,
            sg_template = generateToolTemplate i ents\<rparr> # suggestToolsToCreate rest ents)"

subsection \<open>Plan construction\<close>

text \<open>The loop over the intents in \<open>createExecutionPlan\<close>; the accumulator holds the
  steps pushed so far and the set \<open>addressedIntents\<close>.\<close>

fun buildSteps ::
  "intent list \<Rightarrow> entities \<Rightarrow> matchedTool list \<Rightarrow> planStep list \<times> intent set
     \<Rightarrow> planStep list \<times> intent set" where
  "buildSteps [] ents matched acc = acc"
| "buildSteps (i # rest) ents matched (sts, addressedIntents) =
     (if i = UNKNOWN then buildSteps rest ents matched (sts, addressedIntents)
      else (case findBestToolForIntent i matched of
              None \<Rightarrow> buildSteps rest ents matched (sts, addressedIntents)
            | Some toolForIntent \<Rightarrow>
                buildSteps rest ents matched
                  (sts @ [\<lparr>stepId = ''step_'' @ showNat (length sts + 1),
                            st_intent = i,
                            toolId = tool_id (mt_tool toolForIntent),
                            toolName = tool_name (mt_tool toolForIntent),
                            inputParams = determineInputParams i ents (mt_tool toolForIntent),
                            outputParams = determineOutputParams i (mt_tool toolForIntent)\<rparr>],
                   insert i addressedIntents)))"

text \<open>\<open>createExecutionPlan\<close>; \<open>now\<close> and \<open>rnd\<close> feed \<open>generatePlanId\<close>.\<close>

definition createExecutionPlan :: "nat \<Rightarrow> nat \<Rightarrow> analysis \<Rightarrow> plan" where
  "createExecutionPlan now rnd a =
     (let intents = an_intents a; ents = an_entities a; matched = an_matchedTools a
      in if length matched = 0
         then \<lparr>planId = None,
               canExecute = False,
               reason = Some ''No suitable tools found'',
               steps = None,
               dataFlow = None,
               unaddressedIntents = None,
               suggestedTools = Some (suggestToolsToCreate intents ents)\<rparr>
         else (let (sts, addressedIntents) = buildSteps intents ents matched ([], {});
                   unaddressed = filter (\<lambda>i. i \<noteq> UNKNOWN \<and> i \<notin> addressedIntents) intents
               in \<lparr>planId = Some (generatePlanId now rnd),
                   canExecute = (0 < length sts),
                   reason = None,
                   steps = Some sts,
                   dataFlow = Some (createDataFlowMap sts),
                   unaddressedIntents = (if 0 < length unaddressed then Some unaddressed else None),
                   suggestedTools =
                     (if 0 < length unaddressed then Some (suggestToolsToCreate unaddressed ents)
                      else None)\<rparr>))"

section \<open>Executor\<close>

record stepResult =
  sr_success :: bool
  sr_result :: jsval
  sr_error :: "string option"

text \<open>The object returned when the plan cannot be executed.\<close>

record refusal =
  rf_success :: bool
  rf_reason :: string
  rf_suggestedTools :: "suggestion list option"

text \<open>The object returned after the loop over the steps. \<open>er_invoked\<close> is not a property
  of the JavaScript object: it records, in order, the ids of the steps for which
  \<open>executeTool\<close> was called, so that statements about which tools ran can be made.\<close>

record executionResult =
  er_planId :: "string option"
  er_success :: bool
  er_stepResults :: "string \<rightharpoonup> stepResult"
  er_error :: "string option"
  er_invoked :: "string list"

datatype outcome = Refused refusal | Ran executionResult

text \<open>How a template literal renders a value that may be \<open>undefined\<close>.\<close>

definition render :: "string option \<Rightarrow> string" where
  "render s = (case s of None \<Rightarrow> ''undefined'' | Some v \<Rightarrow> v)"

definition getToolInstance :: "tool list \<Rightarrow> string option \<Rightarrow> tool option" where
  "getToolInstance tools tid = find (\<lambda>t. tool_id t = tid) tools"

text \<open>What the engine, not the data, gives for \<open>value[key]\<close>: the built-in properties
  of strings and arrays (\<open>length\<close>, the indices) and whatever is inherited from a prototype;
  \<open>JUndefined\<close> where there is nothing. The engine is a parameter of the executor.\<close>

type_synonym engine = "jsval \<Rightarrow> string \<Rightarrow> jsval"

text \<open>Reading \<open>value[key]\<close>: a \<open>TypeError\<close> on \<open>undefined\<close> and \<open>null\<close>; the own property of
  an object when it has one; what the engine gives otherwise.\<close>

fun getProp :: "engine \<Rightarrow> jsval \<Rightarrow> string \<Rightarrow> jsError + jsval" where
  "getProp eng JUndefined key =
     Inl (TypeError (''Cannot read properties of undefined (reading '' @ quoted key @ '')''))"
| "getProp eng JNull key =
     Inl (TypeError (''Cannot read properties of null (reading '' @ quoted key @ '')''))"
| "getProp eng (JObj kvs) key =
     Inr (case map_of kvs key of None \<Rightarrow> eng (JObj kvs) key | Some v \<Rightarrow> v)"
| "getProp eng v key = Inr (eng v key)"

fun applyMappings :: "engine \<Rightarrow> mapping list \<Rightarrow> jsval \<Rightarrow> params \<Rightarrow> jsError + params" where
  "applyMappings eng [] res ip = Inr ip"
| "applyMappings eng (m # ms) res ip =
     (case getProp eng res (fromParam m) of
        Inl e \<Rightarrow> Inl e
      | Inr sourceValue \<Rightarrow>
          if sourceValue \<noteq> JUndefined
          then applyMappings eng ms res (AList.update (toParam m) sourceValue ip)
          else applyMappings eng ms res ip)"

fun applyConnections ::
  "engine \<Rightarrow> flow list \<Rightarrow> (string \<rightharpoonup> stepResult) \<Rightarrow> params \<Rightarrow> jsError + params" where
  "applyConnections eng [] results ip = Inr ip"
| "applyConnections eng (connection # rest) results ip =
     (case results (df_from connection) of
        None \<Rightarrow> applyConnections eng rest results ip
      | Some sourceStepResult \<Rightarrow>
          if \<not> sr_success sourceStepResult then applyConnections eng rest results ip
          else (case applyMappings eng (mappings connection) (sr_result sourceStepResult) ip of
                  Inl e \<Rightarrow> Inl e
                | Inr ip' \<Rightarrow> applyConnections eng rest results ip'))"

definition transformInputParams ::
  "engine \<Rightarrow> planStep \<Rightarrow> (string \<rightharpoonup> stepResult) \<Rightarrow> (string \<times> flow) list option
     \<Rightarrow> jsError + params" where
  "transformInputParams eng step results df =
     (case df of
        None \<Rightarrow> Inl (TypeError ''Cannot convert undefined or null to object'')
      | Some flows \<Rightarrow>
          (let connections = filter (\<lambda>fl. df_to fl = stepId step) (map snd flows)
           in applyConnections eng connections results (inputParams step)))"

definition executeHttpTool :: "execConfig \<Rightarrow> params \<Rightarrow> jsError + jsval" where
  "executeHttpTool config ps =
     Inr (JObj [(''status'', JStr ''success''),
                (''message'', JStr ''HTTP tool executed successfully''),
                (''params'', JObj ps)])"

definition executeCommandLineTool :: "execConfig \<Rightarrow> params \<Rightarrow> jsError + jsval" where
  "executeCommandLineTool config ps =
     Inr (JObj [(''status'', JStr ''success''),
                (''message'', JStr ''Command-line tool executed successfully''),
                (''params'', JObj ps)])"

definition executeDeclarativeTool :: "execConfig \<Rightarrow> params \<Rightarrow> jsError + jsval" where
  "executeDeclarativeTool config ps =
     (if cfg_type config = Some ''http'' then executeHttpTool config ps
      else if cfg_type config = Some ''command-line'' then executeCommandLineTool config ps
      else Inl (Error (''Unknown execution type: '' @ render (cfg_type config))))"

definition optStr :: "string option \<Rightarrow> jsval" where
  "optStr s = (case s of None \<Rightarrow> JUndefined | Some v \<Rightarrow> JStr v)"

definition executeMcpServer :: "tool \<Rightarrow> params \<Rightarrow> jsError + jsval" where
  "executeMcpServer t ps =
     (if \<not> truthyStr (apiEndpoint t)
      then Inl (Error (''MCP server '' @ render (tool_id t) @ '' doesn't have an API endpoint''))
      else Inr (JObj [(''status'', JStr ''success''),
                      (''message'', JStr ''MCP server executed successfully''),
                      (''result'', JObj [(''data'', JObj []),
                                         (''metadata'', JObj [(''processingTime'', JStr ''50ms''),
                                                              (''server'', optStr (tool_id t))])])]))"

text \<open>\<open>executeTool\<close>: the three mechanisms in the order the code tests them.\<close>

definition executeTool :: "tool \<Rightarrow> params \<Rightarrow> jsError + jsval" where
  "executeTool t ps =
     (case execute t of
        Some handler \<Rightarrow> handler ps
      | None \<Rightarrow>
          (case executionConfig t of
             Some config \<Rightarrow> executeDeclarativeTool config ps
           | None \<Rightarrow>
               if tool_type t = Some ''mcp-server'' then executeMcpServer t ps
               else Inl (Error (''Tool '' @ render (tool_id t) @ '' doesn't have a valid execution mechanism''))))"

text \<open>The state of the loop over the steps.\<close>

record loopState =
  stepResults :: "string \<rightharpoonup> stepResult"
  overallSuccess :: bool
  errorMessage :: "string option"
  invoked :: "string list"

definition failed :: "string \<Rightarrow> stepResult" where
  "failed msg = \<lparr>sr_success = False, sr_result = JUndefined, sr_error = Some msg\<rparr>"

definition succeeded :: "jsval \<Rightarrow> stepResult" where
  "succeeded res = \<lparr>sr_success = True, sr_result = res, sr_error = None\<rparr>"

text \<open>The \<open>catch\<close> block of the loop.\<close>

definition caught :: "planStep \<Rightarrow> jsError \<Rightarrow> loopState \<Rightarrow> loopState" where
  "caught step e st =
     st\<lparr>stepResults := (stepResults st)(stepId step \<mapsto> failed (message e)),
        overallSuccess := False,
        errorMessage := Some (''Error in step '' @ stepId step @ '': '' @ message e)\<rparr>"

definition notFound :: "planStep \<Rightarrow> string" where
  "notFound step = ''Tool '' @ render (toolId step) @ '' not found''"

text \<open>The \<open>for\<close> loop of \<open>executeRequest\<close>; every \<open>break\<close> ends the recursion.\<close>

fun runSteps ::
  "engine \<Rightarrow> tool list \<Rightarrow> (string \<times> flow) list option \<Rightarrow> planStep list \<Rightarrow> loopState
     \<Rightarrow> loopState" where
  "runSteps eng tools df [] st = st"
| "runSteps eng tools df (step # rest) st =
     (case getToolInstance tools (toolId step) of
        None \<Rightarrow>
          st\<lparr>stepResults := (stepResults st)(stepId step \<mapsto> failed (notFound step)),
             overallSuccess := False,
             errorMessage := Some (notFound step)\<rparr>
      | Some toolInstance \<Rightarrow>
          (case transformInputParams eng step (stepResults st) df of
             Inl e \<Rightarrow> caught step e st
           | Inr ip \<Rightarrow>
               (case executeTool toolInstance ip of
                  Inl e \<Rightarrow> caught step e (st\<lparr>invoked := invoked st @ [stepId step]\<rparr>)
                | Inr res \<Rightarrow>
                    runSteps eng tools df rest
                      (st\<lparr>stepResults := (stepResults st)(stepId step \<mapsto> succeeded res),
                          invoked := invoked st @ [stepId step]\<rparr>))))"

definition initialState :: loopState where
  "initialState = \<lparr>stepResults = Map.empty, overallSuccess = True, errorMessage = None, invoked = []\<rparr>"

text \<open>\<open>executeRequest\<close>. Its first statement logs \<open>plan.steps.length\<close>, which throws when
  the plan has no \<open>steps\<close> property; that statement stands before the \<open>canExecute\<close> test
  and outside every \<open>try\<close>.\<close>

definition executeRequest :: "engine \<Rightarrow> tool list \<Rightarrow> plan \<Rightarrow> jsError + outcome" where
  "executeRequest eng tools p =
     (case steps p of
        None \<Rightarrow> Inl (TypeError (''Cannot read properties of undefined (reading '' @ quoted ''length'' @ '')''))
      | Some sts \<Rightarrow>
          if \<not> canExecute p
          then Inr (Refused \<lparr>rf_success = False,
                             rf_reason = (if truthyStr (reason p) then render (reason p)
                                          else ''Plan cannot be executed''),
                             rf_suggestedTools = suggestedTools p\<rparr>)
          else (let st = runSteps eng tools (dataFlow p) sts initialState
                in Inr (Ran \<lparr>er_planId = planId p,
                             er_success = overallSuccess st,
                             er_stepResults = stepResults st,
                             er_error = errorMessage st,
                             er_invoked = invoked st\<rparr>)))"

section \<open>Reference definitions and example data\<close>

text \<open>The keywords of the seven intent tables, in the order the code tests them.\<close>

definition intentKeywords :: "string list" where
  "intentKeywords =
     [''file'', ''read'', ''write'', ''save'', ''load'', ''csv'', ''json'', ''txt'',
      ''process'', ''transform'', ''extract'', ''convert'', ''analyze'', ''calculate'',
      ''code'', ''program'', ''function'', ''script'', ''algorithm'', ''develop'',
      ''visualize'', ''chart'', ''plot'', ''graph'', ''dashboard'', ''display'',
      ''search'', ''find'', ''lookup'', ''retrieve'', ''get information'',
      ''run'', ''execute'', ''terminal'', ''command'', ''shell'', ''bash'',
      ''web'', ''internet'', ''online'', ''website'', ''url'', ''http'']"

text \<open>The confidence as the specification words it, in exact arithmetic: 0.4 when the
  intents are not just \<open>UNKNOWN\<close>, plus 0.15 for each non-empty entity category, capped
  at 1.\<close>

definition specConfidence :: "intent list \<Rightarrow> entities \<Rightarrow> real" where
  "specConfidence intents ents =
     min 1 ((if intents \<noteq> [UNKNOWN] then 0.4 else 0) +
            0.15 * real (length (filter (\<lambda>xs. xs \<noteq> [])
                      [files ents, dataTypes ents, codeLanguages ents, visualizationTypes ents])))"

text \<open>The score as the specification words it: each term counts the entity values that
  the tool's capability list contains; for files the value compared is the lower-cased
  extension.\<close>

definition nonEmptyCategories :: "entities \<Rightarrow> nat" where
  "nonEmptyCategories ents =
     length (filter (\<lambda>xs. xs \<noteq> [])
       [files ents, dataTypes ents, codeLanguages ents, visualizationTypes ents])"

text \<open>The ten doubles the confidence can be, by whether an intent was recognised and by the
  number of non-empty entity categories. In decimal notation they are 0, 0.15, 0.3,
  0.44999999999999996, 0.6 and 0.4, 0.55, 0.7000000000000001, 0.8500000000000001, 1.\<close>

definition confidenceTable :: "bool \<Rightarrow> nat \<Rightarrow> real" where
  "confidenceTable known k =
     (if known
      then [3602879701896397 / 2 ^ 53, 2476979795053773 / 2 ^ 52, 6305039478318695 / 2 ^ 53,
            1914029841632461 / 2 ^ 51, 1] ! k
      else [0, 5404319552844595 / 2 ^ 55, 5404319552844595 / 2 ^ 54,
            2026619832316723 / 2 ^ 52, 5404319552844595 / 2 ^ 53] ! k)"

definition countIn :: "string list \<Rightarrow> string list option \<Rightarrow> nat" where
  "countIn xs cap = (case cap of None \<Rightarrow> 0 | Some c \<Rightarrow> length (filter (\<lambda>x. x \<in> set c) xs))"

definition specScore :: "tool \<Rightarrow> entities \<Rightarrow> nat" where
  "specScore t ents =
     10 * countIn (map (\<lambda>f. toLowerCase (fileExtension f)) (files ents)) (capList t cap_fileTypes) +
     5 * countIn (dataTypes ents) (capList t cap_dataTypes) +
     8 * countIn (codeLanguages ents) (capList t cap_languages) +
     7 * countIn (visualizationTypes ents) (capList t cap_visualizationTypes)"

definition declaredIntents :: "tool \<Rightarrow> intent set" where
  "declaredIntents t = (case capList t cap_intents of None \<Rightarrow> {} | Some is \<Rightarrow> set is)"

definition emptyCapabilities :: capabilities where
  "emptyCapabilities =
     \<lparr>cap_intents = None, cap_fileTypes = None, cap_dataTypes = None,
      cap_languages = None, cap_visualizationTypes = None\<rparr>"

text \<open>The entity-derived parameters as the specification words them, as a map.\<close>

definition firstOf :: "string \<Rightarrow> string list \<Rightarrow> (string \<rightharpoonup> jsval)" where
  "firstOf key xs = (case xs of [] \<Rightarrow> Map.empty | x # rest \<Rightarrow> [key \<mapsto> JStr x])"

fun entityDefaults :: "intent \<Rightarrow> entities \<Rightarrow> (string \<rightharpoonup> jsval)" where
  "entityDefaults FILE_OPERATION ents = firstOf ''filePath'' (files ents)"
| "entityDefaults DATA_PROCESSING ents =
     firstOf ''inputFile'' (files ents) ++ firstOf ''dataType'' (dataTypes ents)"
| "entityDefaults CODE_GENERATION ents = firstOf ''language'' (codeLanguages ents)"
| "entityDefaults VISUALIZATION ents =
     firstOf ''dataSource'' (files ents) ++ firstOf ''visualizationType'' (visualizationTypes ents)"
| "entityDefaults other ents = Map.empty"

definition toolDefaults :: "tool \<Rightarrow> (string \<rightharpoonup> jsval)" where
  "toolDefaults t = (case defaultParams t of None \<Rightarrow> Map.empty | Some d \<Rightarrow> map_of d)"

text \<open>The intents of the list that get a step: not \<open>UNKNOWN\<close>, and declared by some
  matched tool.\<close>

definition addressed :: "intent list \<Rightarrow> matchedTool list \<Rightarrow> intent list" where
  "addressed intents matched =
     filter (\<lambda>i. i \<noteq> UNKNOWN \<and> (\<exists>m \<in> set matched. i \<in> declaredIntents (mt_tool m))) intents"

definition stepName :: "nat \<Rightarrow> string" where
  "stepName k = ''step_'' @ showNat k"

text \<open>The data-flow entry from step \<open>k\<close> to step \<open>k + 1\<close>: its key, and the edge with
  the single mapping from \<open>result\<close> to \<open>input\<close>.\<close>

definition chainEdge :: "nat \<Rightarrow> string \<times> flow" where
  "chainEdge k =
     (stepName k @ '':'' @ stepName (k + 1),
      \<lparr>df_from = stepName k, df_to = stepName (k + 1),
       mappings = [\<lparr>fromParam = ''result'', toParam = ''input''\<rparr>]\<rparr>)"

text \<open>\<open>merged\<close> is the shallow merge of \<open>payload\<close> into \<open>old\<close>: every property the payload
  has carries the payload's value, every other property the old value.\<close>

definition mergedFrom :: "tool \<Rightarrow> tool \<Rightarrow> tool \<Rightarrow> bool" where
  "mergedFrom old payload merged =
     (tool_id merged = (if tool_id payload = None then tool_id old else tool_id payload) \<and>
      tool_name merged = (if tool_name payload = None then tool_name old else tool_name payload) \<and>
      tool_version merged =
        (if tool_version payload = None then tool_version old else tool_version payload) \<and>
      tool_description merged =
        (if tool_description payload = None then tool_description old else tool_description payload) \<and>
      tool_type merged = (if tool_type payload = None then tool_type old else tool_type payload) \<and>
      apiEndpoint merged = (if apiEndpoint payload = None then apiEndpoint old else apiEndpoint payload) \<and>
      tool_capabilities merged =
        (if tool_capabilities payload = None then tool_capabilities old else tool_capabilities payload) \<and>
      defaultParams merged =
        (if defaultParams payload = None then defaultParams old else defaultParams payload) \<and>
      outputs merged = (if outputs payload = None then outputs old else outputs payload) \<and>
      executionConfig merged =
        (if executionConfig payload = None then executionConfig old else executionConfig payload) \<and>
      (case execute payload of
         None \<Rightarrow> execute merged = execute old
       | Some h \<Rightarrow> execute merged = Some h))"

text \<open>\<open>m\<close> is the first entry of \<open>matched\<close> with the highest score among the entries
  that declare intent \<open>i\<close>.\<close>

definition bestFor :: "intent \<Rightarrow> matchedTool list \<Rightarrow> matchedTool \<Rightarrow> bool" where
  "bestFor i matched m =
     (\<exists>before after.
        matched = before @ m # after \<and>
        supportsIntent (mt_tool m) i \<and>
        (\<forall>b \<in> set before. supportsIntent (mt_tool b) i \<longrightarrow> mt_score b < mt_score m) \<and>
        (\<forall>c \<in> set after. supportsIntent (mt_tool c) i \<longrightarrow> mt_score c \<le> mt_score m))"

text \<open>Step \<open>s\<close> carries the tool that \<open>findBestToolForIntent\<close> returns for the step's
  intent, with the parameters computed from that tool.\<close>

definition builtFrom :: "entities \<Rightarrow> matchedTool list \<Rightarrow> planStep \<Rightarrow> bool" where
  "builtFrom ents ms s =
     (\<exists>m. findBestToolForIntent (st_intent s) ms = Some m \<and>
          toolId s = tool_id (mt_tool m) \<and> toolName s = tool_name (mt_tool m) \<and>
          inputParams s = determineInputParams (st_intent s) ents (mt_tool m) \<and>
          outputParams s = determineOutputParams (st_intent s) (mt_tool m))"

subsection \<open>The two tool definitions shipped with the repository\<close>

definition fileProcessor :: tool where
  "fileProcessor =
     \<lparr>tool_id = Some ''file-processor'',
      tool_name = Some ''File Processor'',
      tool_version = Some ''0.1.0'',
      tool_description = Some ''A tool for reading and processing various file types'',
      tool_type = Some ''mcp-server'',
      apiEndpoint = Some ''http://localhost:3001/api/process'',
      tool_capabilities =
        Some \<lparr>cap_intents = Some [FILE_OPERATION, DATA_PROCESSING],
              cap_fileTypes = Some [''csv'', ''json'', ''txt''],
              cap_dataTypes = Some [''tabular'', ''json'', ''text''],
              cap_languages = None,
              cap_visualizationTypes = None\<rparr>,
      defaultParams = Some [(''filePath'', JStr []), (''outputFormat'', JStr ''json'')],
      outputs = Some (JObj [(''success'', JBool True), (''result'', JObj []),
                            (''processingTime'', JStr ''0ms'')]),
      executionConfig =
        Some \<lparr>cfg_type = Some ''http'', cfg_url = Some ''http://localhost:3001/api/process'',
              cfg_command = None\<rparr>,
      execute = None\<rparr>"

definition visualizationCreator :: tool where
  "visualizationCreator =
     \<lparr>tool_id = Some ''visualization-creator'',
      tool_name = Some ''Visualization Creator'',
      tool_version = Some ''0.1.0'',
      tool_description = Some ''A tool for creating various types of data visualizations'',
      tool_type = Some ''mcp-server'',
      apiEndpoint = Some ''http://localhost:3002/api/visualize'',
      tool_capabilities =
        Some \<lparr>cap_intents = Some [VISUALIZATION, DATA_PROCESSING],
              cap_fileTypes = Some [''csv'', ''json''],
              cap_dataTypes = Some [''tabular'', ''json''],
              cap_languages = None,
              cap_visualizationTypes =
                Some [''bar_chart'', ''line_chart'', ''pie_chart'', ''scatter_plot'',
                      ''heatmap'', ''histogram'']\<rparr>,
      defaultParams =
        Some [(''data'', JObj []), (''type'', JStr ''bar_chart''), (''title'', JStr ''Visualization''),
              (''width'', JNum 800), (''height'', JNum 600), (''colorScheme'', JStr ''default'')],
      outputs = Some (JObj [(''success'', JBool True), (''visualizationPath'', JStr []),
                            (''format'', JStr ''svg'')]),
      executionConfig =
        Some \<lparr>cfg_type = Some ''http'', cfg_url = Some ''http://localhost:3002/api/visualize'',
              cfg_command = None\<rparr>,
      execute = None\<rparr>"

definition exampleRegistry :: "tool list" where
  "exampleRegistry = [fileProcessor, visualizationCreator]"

text \<open>The registration request of the quick-start guide: a tool without an id.\<close>

definition myTool :: tool where
  "myTool =
     \<lparr>tool_id = None,
      tool_name = Some ''My Tool'',
      tool_version = None,
      tool_description = Some ''Description of my tool'',
      tool_type = Some ''mcp-server'',
      apiEndpoint = Some ''http://localhost:3001/api/process'',
      tool_capabilities =
        Some \<lparr>cap_intents = Some [FILE_OPERATION, DATA_PROCESSING],
              cap_fileTypes = Some [''csv'', ''json''],
              cap_dataTypes = Some [''tabular'', ''json''],
              cap_languages = None,
              cap_visualizationTypes = None\<rparr>,
      defaultParams = None,
      outputs = None,
      executionConfig = None,
      execute = None\<rparr>"

subsection \<open>The query of the quick-start guide and what the analyzer makes of it\<close>

definition exampleQuery :: string where
  "exampleQuery = ''Extract data from sales.csv and create a bar chart''"

definition exampleLower :: string where
  "exampleLower = ''extract data from sales.csv and create a bar chart''"

definition exampleEntities :: entities where
  "exampleEntities =
     \<lparr>files = [''sales.csv''], dataTypes = [''tabular''], codeLanguages = [],
      visualizationTypes = [''bar_chart'']\<rparr>"

definition exampleIntents :: "intent list" where
  "exampleIntents = [FILE_OPERATION, DATA_PROCESSING, VISUALIZATION]"

definition exampleMatched :: "matchedTool list" where
  "exampleMatched =
     [\<lparr>mt_tool = visualizationCreator, mt_score = 22\<rparr>, \<lparr>mt_tool = fileProcessor, mt_score = 15\<rparr>]"

definition exampleAnalysis :: analysis where
  "exampleAnalysis =
     \<lparr>an_query = exampleQuery, an_intents = exampleIntents, an_entities = exampleEntities,
      an_matchedTools = exampleMatched,
      an_confidence = \<lparr>mant = 7656119366529844, expo = - 53\<rparr>\<rparr>"

subsection \<open>The plan built for the quick-start query\<close>

definition exampleStep1 :: planStep where
  "exampleStep1 =
     \<lparr>stepId = ''step_1'', st_intent = FILE_OPERATION,
      toolId = Some ''file-processor'', toolName = Some ''File Processor'',
      inputParams = [(''filePath'', JStr ''sales.csv''), (''outputFormat'', JStr ''json'')],
      outputParams = JObj [(''success'', JBool True), (''result'', JObj []),
                           (''processingTime'', JStr ''0ms'')]\<rparr>"

definition exampleStep2 :: planStep where
  "exampleStep2 =
     \<lparr>stepId = ''step_2'', st_intent = DATA_PROCESSING,
      toolId = Some ''visualization-creator'', toolName = Some ''Visualization Creator'',
      inputParams =
        [(''data'', JObj []), (''type'', JStr ''bar_chart''), (''title'', JStr ''Visualization''),
         (''width'', JNum 800), (''height'', JNum 600), (''colorScheme'', JStr ''default''),
         (''inputFile'', JStr ''sales.csv''), (''dataType'', JStr ''tabular'')],
      outputParams = JObj [(''success'', JBool True), (''visualizationPath'', JStr []),
                           (''format'', JStr ''svg'')]\<rparr>"

definition exampleStep3 :: planStep where
  "exampleStep3 =
     \<lparr>stepId = ''step_3'', st_intent = VISUALIZATION,
      toolId = Some ''visualization-creator'', toolName = Some ''Visualization Creator'',
      inputParams =
        [(''data'', JObj []), (''type'', JStr ''bar_chart''), (''title'', JStr ''Visualization''),
         (''width'', JNum 800), (''height'', JNum 600), (''colorScheme'', JStr ''default''),
         (''dataSource'', JStr ''sales.csv''), (''visualizationType'', JStr ''bar_chart'')],
      outputParams = JObj [(''success'', JBool True), (''visualizationPath'', JStr []),
                           (''format'', JStr ''svg'')]\<rparr>"

definition exampleSteps :: "planStep list" where
  "exampleSteps = [exampleStep1, exampleStep2, exampleStep3]"

definition examplePlan :: plan where
  "examplePlan =
     \<lparr>planId = Some ''plan_1700000000000_42'',
      canExecute = True,
      reason = None,
      steps = Some exampleSteps,
      dataFlow =
        Some [(''step_1:step_2'',
               \<lparr>df_from = ''step_1'', df_to = ''step_2'',
                mappings = [\<lparr>fromParam = ''result'', toParam = ''input''\<rparr>]\<rparr>),
              (''step_2:step_3'',
               \<lparr>df_from = ''step_2'', df_to = ''step_3'',
                mappings = [\<lparr>fromParam = ''result'', toParam = ''input''\<rparr>]\<rparr>)],
      unaddressedIntents = None,
      suggestedTools = None\<rparr>"

text \<open>A registration request with a name and capabilities, without an id and without a
  type.\<close>

definition plainTool :: tool where
  "plainTool =
     \<lparr>tool_id = None,
      tool_name = Some ''My Tool'',
      tool_version = None,
      tool_description = Some ''Description of my tool'',
      tool_type = None,
      apiEndpoint = None,
      tool_capabilities =
        Some \<lparr>cap_intents = Some [FILE_OPERATION, DATA_PROCESSING],
              cap_fileTypes = Some [''csv'', ''json''],
              cap_dataTypes = Some [''tabular'', ''json''],
              cap_languages = None,
              cap_visualizationTypes = None\<rparr>,
      defaultParams = None,
      outputs = None,
      executionConfig = None,
      execute = None\<rparr>"

text \<open>An engine fragment: the \<open>length\<close> of strings and arrays, nothing else.\<close>

fun lengthEngine :: engine where
  "lengthEngine (JStr s) key = (if key = ''length'' then JNum (int (length s)) else JUndefined)"
| "lengthEngine (JArr xs) key = (if key = ''length'' then JNum (int (length xs)) else JUndefined)"
| "lengthEngine v key = JUndefined"

text \<open>A re-registration of the file processor that carries only a new version.\<close>

definition fileProcessorUpdate :: tool where
  "fileProcessorUpdate =
     \<lparr>tool_id = Some ''file-processor'',
      tool_name = None,
      tool_version = Some ''0.2.0'',
      tool_description = None,
      tool_type = None,
      apiEndpoint = None,
      tool_capabilities = None,
      defaultParams = None,
      outputs = None,
      executionConfig = None,
      execute = None\<rparr>"

section \<open>The doubles of the confidence\<close>

lemma lit_values:
  "lit_0 = \<lparr>mant = 0, expo = 0\<rparr>"
  "lit_0_4 = \<lparr>mant = 7205759403792794, expo = - 54\<rparr>"
  "lit_0_15 = \<lparr>mant = 5404319552844595, expo = - 55\<rparr>"
  "lit_1_0 = \<lparr>mant = 4503599627370496, expo = - 52\<rparr>"
  by (simp_all add: lit_0_def lit_0_4_def lit_0_15_def lit_1_0_def roundToDouble_def roundAt_def
      scaled_def bitLength.simps Let_def)

lemma literals_nearest:
  "\<bar>dval lit_0_4 - 4 / 10\<bar> \<le> 1 / 2 ^ 55" "\<bar>dval lit_0_15 - 15 / 100\<bar> \<le> 1 / 2 ^ 56"
  "dval lit_0 = 0" "dval lit_1_0 = 1"
  by (simp_all add: lit_values dval_def)

lemma sums_unknown:
  "fadd \<lparr>mant = 0, expo = 0\<rparr> \<lparr>mant = 5404319552844595, expo = - 55\<rparr> =
     \<lparr>mant = 5404319552844595, expo = - 55\<rparr>"
  "fadd \<lparr>mant = 5404319552844595, expo = - 55\<rparr> \<lparr>mant = 5404319552844595, expo = - 55\<rparr> =
     \<lparr>mant = 5404319552844595, expo = - 54\<rparr>"
  "fadd \<lparr>mant = 5404319552844595, expo = - 54\<rparr> \<lparr>mant = 5404319552844595, expo = - 55\<rparr> =
     \<lparr>mant = 8106479329266892, expo = - 54\<rparr>"
  "fadd \<lparr>mant = 8106479329266892, expo = - 54\<rparr> \<lparr>mant = 5404319552844595, expo = - 55\<rparr> =
     \<lparr>mant = 5404319552844595, expo = - 53\<rparr>"
  by (simp_all add: fadd_def roundToDouble_def roundAt_def scaled_def bitLength.simps Let_def)

lemma sums_known:
  "fadd \<lparr>mant = 0, expo = 0\<rparr> \<lparr>mant = 7205759403792794, expo = - 54\<rparr> =
     \<lparr>mant = 7205759403792794, expo = - 54\<rparr>"
  "fadd \<lparr>mant = 7205759403792794, expo = - 54\<rparr> \<lparr>mant = 5404319552844595, expo = - 55\<rparr> =
     \<lparr>mant = 4953959590107546, expo = - 53\<rparr>"
  "fadd \<lparr>mant = 4953959590107546, expo = - 53\<rparr> \<lparr>mant = 5404319552844595, expo = - 55\<rparr> =
     \<lparr>mant = 6305039478318695, expo = - 53\<rparr>"
  "fadd \<lparr>mant = 6305039478318695, expo = - 53\<rparr> \<lparr>mant = 5404319552844595, expo = - 55\<rparr> =
     \<lparr>mant = 7656119366529844, expo = - 53\<rparr>"
  "fadd \<lparr>mant = 7656119366529844, expo = - 53\<rparr> \<lparr>mant = 5404319552844595, expo = - 55\<rparr> =
     \<lparr>mant = 4503599627370496, expo = - 52\<rparr>"
  by (simp_all add: fadd_def roundToDouble_def roundAt_def scaled_def bitLength.simps Let_def)

lemma caps:
  "fmin \<lparr>mant = 0, expo = 0\<rparr> \<lparr>mant = 4503599627370496, expo = - 52\<rparr> = \<lparr>mant = 0, expo = 0\<rparr>"
  "fmin \<lparr>mant = 5404319552844595, expo = - 55\<rparr> \<lparr>mant = 4503599627370496, expo = - 52\<rparr> =
     \<lparr>mant = 5404319552844595, expo = - 55\<rparr>"
  "fmin \<lparr>mant = 5404319552844595, expo = - 54\<rparr> \<lparr>mant = 4503599627370496, expo = - 52\<rparr> =
     \<lparr>mant = 5404319552844595, expo = - 54\<rparr>"
  "fmin \<lparr>mant = 8106479329266892, expo = - 54\<rparr> \<lparr>mant = 4503599627370496, expo = - 52\<rparr> =
     \<lparr>mant = 8106479329266892, expo = - 54\<rparr>"
  "fmin \<lparr>mant = 5404319552844595, expo = - 53\<rparr> \<lparr>mant = 4503599627370496, expo = - 52\<rparr> =
     \<lparr>mant = 5404319552844595, expo = - 53\<rparr>"
  "fmin \<lparr>mant = 7205759403792794, expo = - 54\<rparr> \<lparr>mant = 4503599627370496, expo = - 52\<rparr> =
     \<lparr>mant = 7205759403792794, expo = - 54\<rparr>"
  "fmin \<lparr>mant = 4953959590107546, expo = - 53\<rparr> \<lparr>mant = 4503599627370496, expo = - 52\<rparr> =
     \<lparr>mant = 4953959590107546, expo = - 53\<rparr>"
  "fmin \<lparr>mant = 6305039478318695, expo = - 53\<rparr> \<lparr>mant = 4503599627370496, expo = - 52\<rparr> =
     \<lparr>mant = 6305039478318695, expo = - 53\<rparr>"
  "fmin \<lparr>mant = 7656119366529844, expo = - 53\<rparr> \<lparr>mant = 4503599627370496, expo = - 52\<rparr> =
     \<lparr>mant = 7656119366529844, expo = - 53\<rparr>"
  "fmin \<lparr>mant = 4503599627370496, expo = - 52\<rparr> \<lparr>mant = 4503599627370496, expo = - 52\<rparr> =
     \<lparr>mant = 4503599627370496, expo = - 52\<rparr>"
  by (simp_all add: fmin_def fle_def Let_def)

lemma calculateConfidence_table:
  assumes "(UNKNOWN \<in> set intents) = (intents = [UNKNOWN])"
  shows "dval (calculateConfidence intents ents) =
           confidenceTable (intents \<noteq> [UNKNOWN]) (nonEmptyCategories ents)"
  using assms
  by (cases "files ents"; cases "dataTypes ents"; cases "codeLanguages ents";
      cases "visualizationTypes ents"; cases "intents = [UNKNOWN]")
     (simp_all add: calculateConfidence_def addIf_def Let_def lit_values sums_unknown sums_known caps
        confidenceTable_def nonEmptyCategories_def dval_def)

lemma nonEmptyCategories_le: "nonEmptyCategories ents \<le> 4"
  by (simp add: nonEmptyCategories_def)

lemma table_cases: "k \<le> 4 \<Longrightarrow> k \<in> {0, 1, 2, 3, 4::nat}"
  by auto

lemma table_near_exact:
  assumes "k \<le> 4"
  shows "\<bar>confidenceTable known k - min 1 ((if known then 0.4 else 0) + 0.15 * real k)\<bar> \<le> 1 / 2 ^ 53"
    and "confidenceTable known k \<le> 1"
  using table_cases [OF assms]
  by (auto simp: confidenceTable_def)

lemma specConfidence_count:
  "specConfidence intents ents =
     min 1 ((if intents \<noteq> [UNKNOWN] then 0.4 else 0) + 0.15 * real (nonEmptyCategories ents))"
  by (simp add: specConfidence_def nonEmptyCategories_def)

section \<open>The analyzer on the quick-start query\<close>

lemma exampleLower_eq: "toLowerCase exampleQuery = exampleLower"
  unfolding exampleQuery_def exampleLower_def by code_simp

lemma exampleLower_idem: "toLowerCase exampleLower = exampleLower"
  unfolding exampleLower_def by code_simp

lemma example_detectIntents: "detectIntents exampleLower = exampleIntents"
  by (simp add: exampleLower_def detectIntents_def keywordIntents_def pushIf_def exampleIntents_def)

lemma example_files: "extractFileReferences exampleQuery = [''sales.csv'']"
  by (simp add: exampleQuery_def extractFileReferences_def matchFileAt_def wordBoundary_def
      isWordChar_def isNameChar_def extMatches_def fileExtensions_def)

lemma example_dataTypes: "extractDataTypes exampleQuery = [''tabular'']"
  unfolding extractDataTypes_def exampleLower_eq by (simp add: exampleLower_def pushIf_def)

lemma example_visualizationTypes: "extractVisualizationTypes exampleQuery = [''bar_chart'']"
  unfolding extractVisualizationTypes_def exampleLower_eq by (simp add: exampleLower_def pushIf_def)

lemma example_codeLanguages: "extractCodeLanguages exampleQuery = []"
  unfolding extractCodeLanguages_def exampleLower_eq Let_def regexTest_def exampleLower_idem
  by (simp add: exampleLower_def languagePatterns_def altMatchesAt_def)

lemma example_entities: "extractEntities exampleQuery = exampleEntities"
  by (simp add: extractEntities_def exampleEntities_def example_files example_dataTypes
      example_visualizationTypes example_codeLanguages)

lemma example_scores:
  "calculateToolMatchScore fileProcessor exampleEntities = 15"
  "calculateToolMatchScore visualizationCreator exampleEntities = 22"
  by (simp_all add: calculateToolMatchScore_def capList_def fileProcessor_def visualizationCreator_def
      exampleEntities_def fileExtension_def toLowerCase_def toLowerChar_def)

lemma example_matched:
  "matchToolsToIntents exampleRegistry exampleIntents exampleEntities = exampleMatched"
  apply (simp add: matchToolsToIntents_def exampleRegistry_def example_scores intentMatch_def
      supportsIntent_def capList_def sortByScoreDesc_def exampleMatched_def exampleIntents_def)
  apply (simp add: fileProcessor_def visualizationCreator_def)
  done

lemma example_analysis: "analyzeRequest exampleRegistry exampleQuery = exampleAnalysis"
  unfolding analyzeRequest_def Let_def exampleLower_eq example_detectIntents example_entities
    example_matched
  by (simp add: exampleAnalysis_def calculateConfidence_def addIf_def lit_values sums_known caps
      exampleIntents_def exampleEntities_def)

lemma analyzeRequest_intents: "an_intents (analyzeRequest tools q) = detectIntents (toLowerCase q)"
  by (simp add: analyzeRequest_def Let_def)

lemma analyzeRequest_entities: "an_entities (analyzeRequest tools q) = extractEntities q"
  by (simp add: analyzeRequest_def Let_def)

text \<open>
  The FILE_OPERATION table contains the keyword "csv", which occurs in the quick-start
  query, so the detected intents are not just DATA_PROCESSING and VISUALIZATION.
\<close>

theorem C1_counterexample:
  "an_intents (analyzeRequest [] exampleQuery) \<noteq> [DATA_PROCESSING, VISUALIZATION]"
  by (simp add: analyzeRequest_intents exampleLower_eq example_detectIntents exampleIntents_def)

text \<open>
  Claim C1, amended: for the query "Extract data from sales.csv and create a bar chart",
  whatever the registry holds, classification returns the intents FILE_OPERATION,
  DATA_PROCESSING, VISUALIZATION in this order, the files ["sales.csv"] and the visualization
  types ["bar_chart"].
\<close>

theorem C1_example_classification:
  "an_intents (analyzeRequest tools exampleQuery) = [FILE_OPERATION, DATA_PROCESSING, VISUALIZATION] \<and>
   files (an_entities (analyzeRequest tools exampleQuery)) = [''sales.csv''] \<and>
   visualizationTypes (an_entities (analyzeRequest tools exampleQuery)) = [''bar_chart'']"
  by (simp add: analyzeRequest_intents analyzeRequest_entities exampleLower_eq example_detectIntents
      example_entities exampleIntents_def exampleEntities_def)

theorem C1_example_classification_witness:
  "an_intents (analyzeRequest exampleRegistry exampleQuery) = [FILE_OPERATION, DATA_PROCESSING, VISUALIZATION] \<and>
   files (an_entities (analyzeRequest exampleRegistry exampleQuery)) = [''sales.csv''] \<and>
   visualizationTypes (an_entities (analyzeRequest exampleRegistry exampleQuery)) = [''bar_chart'']"
  using C1_example_classification [of exampleRegistry] by simp

section \<open>Intent detection and confidence\<close>

lemma pushIf_avoids: "u \<notin> set xs \<Longrightarrow> x \<noteq> u \<Longrightarrow> u \<notin> set (pushIf b x xs)"
  by (simp add: pushIf_def)

lemma keywordIntents_known: "UNKNOWN \<notin> set (keywordIntents lq)"
  unfolding keywordIntents_def Let_def by (intro pushIf_avoids) simp_all

lemma detectIntents_nonempty: "detectIntents lq \<noteq> []"
  by (simp add: detectIntents_def Let_def)

lemma detectIntents_unknown: "(UNKNOWN \<in> set (detectIntents lq)) = (detectIntents lq = [UNKNOWN])"
  using keywordIntents_known [of lq] by (auto simp: detectIntents_def Let_def)

lemma no_keyword_unknown:
  "\<not> list_ex (includesStr lq) intentKeywords \<Longrightarrow> detectIntents lq = [UNKNOWN]"
  by (simp add: intentKeywords_def detectIntents_def keywordIntents_def pushIf_def)

text \<open>
  For the quick-start query an intent is recognised and three entity categories are
  non-empty. The code adds doubles, 0.4 + 0.15 + 0.15 + 0.15, and reports
  0.8500000000000001: neither the number 0.85 nor the double written 0.85.
\<close>

theorem C8_counterexample:
  "dval (an_confidence (analyzeRequest [] exampleQuery)) \<noteq>
     specConfidence (an_intents (analyzeRequest [] exampleQuery))
       (an_entities (analyzeRequest [] exampleQuery)) \<and>
   dval (an_confidence (analyzeRequest [] exampleQuery)) \<noteq> dval (roundToDouble 85 100)"
proof -
  have c: "an_confidence (analyzeRequest [] exampleQuery) = \<lparr>mant = 7656119366529844, expo = - 53\<rparr>"
    unfolding analyzeRequest_def Let_def exampleLower_eq example_detectIntents example_entities
    by (simp add: calculateConfidence_def addIf_def lit_values sums_known caps
        exampleIntents_def exampleEntities_def)
  have r: "roundToDouble 85 100 = \<lparr>mant = 7656119366529843, expo = - 53\<rparr>"
    by (simp add: roundToDouble_def roundAt_def scaled_def bitLength.simps Let_def)
  have s: "specConfidence exampleIntents exampleEntities = 85 / 100"
    by (simp add: specConfidence_def exampleIntents_def exampleEntities_def)
  show ?thesis
    unfolding c r analyzeRequest_intents analyzeRequest_entities exampleLower_eq
      example_detectIntents example_entities s
    by (simp add: dval_def)
qed

text \<open>
  Claim C8, amended: for every query the detected intent list is non-empty; when no
  keyword of any intent table occurs in the lower-cased query the intents are just UNKNOWN,
  and when in addition all four entity lists are empty the confidence is exactly 0. In
  every case the confidence is the double-precision sum, accumulated in this order, of 0.4
  if the intents are not just UNKNOWN and of 0.15 for each non-empty entity category,
  capped at 1.0: it is the entry of the table of ten doubles for the number of non-empty
  categories, at most 1, and within \<open>2 ^ -53\<close> of the exact value 0.4 (or 0) plus 0.15 per
  category capped at 1, which it need not equal.
\<close>

theorem C8_classification_confidence:
  "an_intents (analyzeRequest tools q) \<noteq> [] \<and>
   (\<not> list_ex (includesStr (toLowerCase q)) intentKeywords \<longrightarrow>
      an_intents (analyzeRequest tools q) = [UNKNOWN]) \<and>
   (\<not> list_ex (includesStr (toLowerCase q)) intentKeywords \<and>
    files (an_entities (analyzeRequest tools q)) = [] \<and>
    dataTypes (an_entities (analyzeRequest tools q)) = [] \<and>
    codeLanguages (an_entities (analyzeRequest tools q)) = [] \<and>
    visualizationTypes (an_entities (analyzeRequest tools q)) = [] \<longrightarrow>
      dval (an_confidence (analyzeRequest tools q)) = 0) \<and>
   dval (an_confidence (analyzeRequest tools q)) =
     confidenceTable (an_intents (analyzeRequest tools q) \<noteq> [UNKNOWN])
       (nonEmptyCategories (an_entities (analyzeRequest tools q))) \<and>
   \<bar>dval (an_confidence (analyzeRequest tools q)) -
     specConfidence (an_intents (analyzeRequest tools q)) (an_entities (analyzeRequest tools q))\<bar>
     \<le> 1 / 2 ^ 53 \<and>
   dval (an_confidence (analyzeRequest tools q)) \<le> 1"
proof -
  let ?a = "analyzeRequest tools q"
  let ?k = "nonEmptyCategories (an_entities ?a)"
  have i: "an_intents ?a = detectIntents (toLowerCase q)"
    by (rule analyzeRequest_intents)
  have c: "an_confidence ?a = calculateConfidence (an_intents ?a) (an_entities ?a)"
    by (simp add: analyzeRequest_def Let_def)
  have t: "dval (an_confidence ?a) = confidenceTable (an_intents ?a \<noteq> [UNKNOWN]) ?k"
    unfolding c by (rule calculateConfidence_table) (simp add: i detectIntents_unknown)
  have k: "?k \<le> 4"
    by (rule nonEmptyCategories_le)
  have n: "\<bar>dval (an_confidence ?a) - specConfidence (an_intents ?a) (an_entities ?a)\<bar> \<le> 1 / 2 ^ 53"
    unfolding t specConfidence_count by (rule table_near_exact(1) [OF k])
  have u: "dval (an_confidence ?a) \<le> 1"
    unfolding t by (rule table_near_exact(2) [OF k])
  have z: "dval (an_confidence ?a) = 0"
    if "an_intents ?a = [UNKNOWN]" "files (an_entities ?a) = []" "dataTypes (an_entities ?a) = []"
       "codeLanguages (an_entities ?a) = []" "visualizationTypes (an_entities ?a) = []"
    unfolding t using that by (simp add: confidenceTable_def nonEmptyCategories_def)
  show ?thesis
    using detectIntents_nonempty [of "toLowerCase q"] no_keyword_unknown [of "toLowerCase q"] t n u z
    unfolding i by blast
qed

theorem C8_classification_confidence_witness:
  "\<not> list_ex (includesStr (toLowerCase ''hello'')) intentKeywords \<and>
   an_entities (analyzeRequest [] ''hello'') =
     \<lparr>files = [], dataTypes = [], codeLanguages = [], visualizationTypes = []\<rparr> \<and>
   an_intents (analyzeRequest [] ''hello'') = [UNKNOWN] \<and>
   dval (an_confidence (analyzeRequest [] ''hello'')) = 0"
proof -
  have l: "toLowerCase ''hello'' = ''hello''" by code_simp
  have n: "\<not> list_ex (includesStr (toLowerCase ''hello'')) intentKeywords"
    unfolding l by (simp add: intentKeywords_def)
  have e: "extractEntities ''hello'' =
      \<lparr>files = [], dataTypes = [], codeLanguages = [], visualizationTypes = []\<rparr>"
    unfolding extractEntities_def extractDataTypes_def extractVisualizationTypes_def
      extractCodeLanguages_def regexTest_def Let_def l
    by (simp add: extractFileReferences_def matchFileAt_def wordBoundary_def isWordChar_def
        isNameChar_def pushIf_def languagePatterns_def altMatchesAt_def)
  show ?thesis
    using C8_classification_confidence [of "[]" "''hello''"] n
    unfolding analyzeRequest_entities e by simp
qed

section \<open>Tool matching\<close>

lemma score_spec: "calculateToolMatchScore t ents = int (specScore t ents)"
  by (simp add: calculateToolMatchScore_def specScore_def countIn_def Let_def length_filter_map comp_def
      split: option.splits)

lemma intentMatch_spec: "intentMatch t intents = (declaredIntents t \<inter> set intents \<noteq> {})"
  by (auto simp: intentMatch_def list_ex_iff supportsIntent_def declaredIntents_def
      split: option.splits)

lemma set_collectMatches:
  "set (collectMatches tools intents ents) =
     {\<lparr>mt_tool = t, mt_score = calculateToolMatchScore t ents\<rparr> | t.
        t \<in> set tools \<and> intentMatch t intents \<and> 0 < calculateToolMatchScore t ents}"
  by (induction tools) (auto simp: Let_def)

lemma set_sortByScoreDesc: "set (sortByScoreDesc ms) = set ms"
  by (simp add: sortByScoreDesc_def)

lemma sorted_sortByScoreDesc:
  "sorted_wrt (\<lambda>a b. mt_score b \<le> mt_score a) (sortByScoreDesc ms)"
proof -
  have "sorted (map (\<lambda>m. - mt_score m) (sortByScoreDesc ms))"
    by (simp add: sortByScoreDesc_def)
  then show ?thesis
    by (simp add: sorted_map)
qed

lemma empty_capabilities_never_match:
  assumes "tool_capabilities t = Some emptyCapabilities"
  shows "declaredIntents t = {}" and "specScore t ents = 0"
  using assms
  by (simp_all add: declaredIntents_def specScore_def capList_def emptyCapabilities_def countIn_def)

text \<open>
  Claim C5: for every registry snapshot, intent list and entity set, the matched tools
  are exactly the registry tools whose declared intents intersect the query intents and
  whose score (10 per file whose lower-cased extension is among the tool's file types, 5
  per data type, 8 per language, 7 per visualization type that the tool declares) is
  strictly positive, each paired with that score; no tool whose capabilities object is
  empty is among them; and the list is sorted by descending score.
\<close>

theorem C5_matched_tools:
  "set (matchToolsToIntents tools intents ents) =
     {\<lparr>mt_tool = t, mt_score = int (specScore t ents)\<rparr> | t.
        t \<in> set tools \<and> declaredIntents t \<inter> set intents \<noteq> {} \<and> 0 < specScore t ents} \<and>
   (\<forall>m \<in> set (matchToolsToIntents tools intents ents).
      tool_capabilities (mt_tool m) \<noteq> Some emptyCapabilities) \<and>
   sorted_wrt (\<lambda>a b. mt_score b \<le> mt_score a) (matchToolsToIntents tools intents ents)"
proof -
  have s: "set (matchToolsToIntents tools intents ents) =
     {\<lparr>mt_tool = t, mt_score = int (specScore t ents)\<rparr> | t.
        t \<in> set tools \<and> declaredIntents t \<inter> set intents \<noteq> {} \<and> 0 < specScore t ents}"
    by (simp add: matchToolsToIntents_def set_sortByScoreDesc set_collectMatches score_spec
        intentMatch_spec)
  have e: "tool_capabilities (mt_tool m) \<noteq> Some emptyCapabilities"
    if "m \<in> set (matchToolsToIntents tools intents ents)" for m
  proof
    assume c: "tool_capabilities (mt_tool m) = Some emptyCapabilities"
    from that obtain t where "m = \<lparr>mt_tool = t, mt_score = int (specScore t ents)\<rparr>"
      and "0 < specScore t ents"
      unfolding s by blast
    with empty_capabilities_never_match(2) [OF c, of ents] show False by simp
  qed
  show ?thesis
    using s e sorted_sortByScoreDesc [of "collectMatches tools intents ents"]
    by (simp add: matchToolsToIntents_def)
qed

theorem C5_matched_tools_witness:
  "\<lparr>mt_tool = fileProcessor, mt_score = 15\<rparr>
     \<in> set (matchToolsToIntents exampleRegistry exampleIntents exampleEntities) \<and>
   \<lparr>mt_tool = visualizationCreator, mt_score = 22\<rparr>
     \<in> set (matchToolsToIntents exampleRegistry exampleIntents exampleEntities) \<and>
   sorted_wrt (\<lambda>a b. mt_score b \<le> mt_score a)
     (matchToolsToIntents exampleRegistry exampleIntents exampleEntities)"
proof -
  have s: "int (specScore fileProcessor exampleEntities) = 15"
    "int (specScore visualizationCreator exampleEntities) = 22"
    using example_scores by (simp_all add: score_spec)
  then have p: "0 < specScore fileProcessor exampleEntities"
    "0 < specScore visualizationCreator exampleEntities"
    by linarith+
  have d: "declaredIntents fileProcessor \<inter> set exampleIntents \<noteq> {}"
    "declaredIntents visualizationCreator \<inter> set exampleIntents \<noteq> {}"
    by (simp_all add: declaredIntents_def capList_def fileProcessor_def visualizationCreator_def
        exampleIntents_def)
  have r: "fileProcessor \<in> set exampleRegistry" "visualizationCreator \<in> set exampleRegistry"
    by (simp_all add: exampleRegistry_def)
  from C5_matched_tools [of exampleRegistry exampleIntents exampleEntities]
  show ?thesis
    using s p d r by auto
qed

section \<open>Registry\<close>

lemma orElse_same [simp]: "orElse x x = x"
  by (simp add: orElse_def split: option.splits)

lemma assign_same: "assign t t = t"
  by (simp add: assign_def)

lemma assign_id: "tool_id t = tool_id new \<Longrightarrow> tool_id (assign t new) = tool_id new"
  by (simp add: assign_def)

lemma assign_takes_new:
  "tool_name new = Some n \<Longrightarrow> tool_name (assign t new) = Some n"
  by (simp add: assign_def orElse_def)

lemma assign_twice: "assign (assign t new) new = assign t new"
  by (simp add: assign_def orElse_def split: option.splits)

lemma registerTool_new:
  "getToolInstance tools (tool_id new) = None \<Longrightarrow> registerTool tools new = tools @ [new]"
  by (induction tools) (auto simp: getToolInstance_def split: if_splits)

lemma registerTool_existing:
  assumes "i < length tools" "tool_id (tools ! i) = tool_id new"
    and "\<forall>j < i. tool_id (tools ! j) \<noteq> tool_id new"
  shows "registerTool tools new = tools[i := assign (tools ! i) new]"
  using assms
proof (induction tools arbitrary: i)
  case Nil
  then show ?case by simp
next
  case (Cons t ts)
  show ?case
  proof (cases i)
    case 0
    with Cons.prems show ?thesis by simp
  next
    case (Suc k)
    with Cons.prems(3) have "tool_id t \<noteq> tool_id new" by auto
    moreover have "registerTool ts new = ts[k := assign (ts ! k) new]"
      using Cons.prems Suc by (intro Cons.IH) auto
    ultimately show ?thesis using Suc by simp
  qed
qed

lemma registerTool_idempotent: "registerTool (registerTool tools new) new = registerTool tools new"
  by (induction tools) (auto simp: assign_same assign_id assign_twice)

lemma registerTool_length: "length tools \<le> length (registerTool tools new)"
  by (induction tools) auto

lemma registerTool_length_cases:
  "length (registerTool tools new) =
     (if getToolInstance tools (tool_id new) = None then length tools + 1 else length tools)"
  by (induction tools) (auto simp: getToolInstance_def)

lemma registerTool_keeps_ids:
  "i < length tools \<Longrightarrow> tool_id (registerTool tools new ! i) = tool_id (tools ! i)"
proof (induction tools arbitrary: i)
  case Nil
  then show ?case by simp
next
  case (Cons t ts)
  then show ?case
    by (cases i) (auto simp: assign_id)
qed

lemma registerTool_lookup_new:
  "getToolInstance tools (tool_id new) = None \<Longrightarrow>
     getToolInstance (registerTool tools new) (tool_id new) = Some new"
  by (induction tools) (auto simp: getToolInstance_def split: if_splits)

lemma registerTool_contains:
  "\<exists>e. getToolInstance (registerTool tools new) (tool_id new) = Some e \<and> assign e new = e"
  by (induction tools) (auto simp: getToolInstance_def assign_same assign_id assign_twice)

lemma orElse_if: "orElse new old = (if new = None then old else new)"
  by (cases new) (simp_all add: orElse_def)

lemma assign_mergedFrom: "mergedFrom old new (assign old new)"
  by (cases "execute new") (simp_all add: mergedFrom_def assign_def orElse_if)

lemma mergedFrom_unique:
  assumes "mergedFrom old new a" "mergedFrom old new b"
  shows "a = b"
proof (rule tool.equality)
  show "execute a = execute b"
    using assms by (cases "execute new") (simp_all add: mergedFrom_def)
qed (use assms in \<open>simp_all add: mergedFrom_def\<close>)

lemma registerTool_lookup_existing:
  "getToolInstance tools (tool_id new) = Some old \<Longrightarrow>
     getToolInstance (registerTool tools new) (tool_id new) = Some (assign old new)"
  by (induction tools) (auto simp: getToolInstance_def assign_id split: if_splits)

lemma registerTool_ids:
  "map tool_id (registerTool tools new) = map tool_id tools \<or>
   map tool_id (registerTool tools new) = map tool_id tools @ [tool_id new]"
  by (induction tools) (auto simp: assign_id)

text \<open>
  Registering twice a payload that carries only an id and a version, over a registry that
  already has the id: the entry stored afterwards is the old entry with the new version,
  not the payload.
\<close>

theorem C7_counterexample:
  "getToolInstance
     (registerTool (registerTool exampleRegistry fileProcessorUpdate) fileProcessorUpdate)
     (tool_id fileProcessorUpdate) = Some (fileProcessor\<lparr>tool_version := Some ''0.2.0''\<rparr>) \<and>
   fileProcessor\<lparr>tool_version := Some ''0.2.0''\<rparr> \<noteq> fileProcessorUpdate"
  by (simp add: exampleRegistry_def fileProcessorUpdate_def fileProcessor_def visualizationCreator_def
      assign_def orElse_def getToolInstance_def)

text \<open>
  Claim C7, amended: registration is an idempotent upsert that keeps the order. When no
  entry has the tool's id, the tool is appended at the end. When an entry has it, the
  first such entry is replaced, at its position, by the shallow merge of the payload into
  it: every property the payload has carries the payload's value, every other property
  keeps the old value. Registering the same payload a second time changes nothing, so the
  length stays the same. The descriptor stored after the two registrations equals the
  payload when the id was not registered before them; when it was, the stored
  descriptor is that shallow merge. The list never gets shorter and every earlier entry
  keeps its position and id.
\<close>

theorem C7_register_upsert:
  "(getToolInstance tools (tool_id new) = None \<longrightarrow> registerTool tools new = tools @ [new]) \<and>
   (\<forall>i. i < length tools \<and> tool_id (tools ! i) = tool_id new \<and>
        (\<forall>j < i. tool_id (tools ! j) \<noteq> tool_id new) \<longrightarrow>
        (\<exists>merged. mergedFrom (tools ! i) new merged \<and>
                  registerTool tools new = tools[i := merged])) \<and>
   registerTool (registerTool tools new) new = registerTool tools new \<and>
   length (registerTool (registerTool tools new) new) = length (registerTool tools new) \<and>
   (getToolInstance tools (tool_id new) = None \<longrightarrow>
      getToolInstance (registerTool (registerTool tools new) new) (tool_id new) = Some new) \<and>
   (\<forall>old. getToolInstance tools (tool_id new) = Some old \<longrightarrow>
      (\<exists>merged. mergedFrom old new merged \<and>
         getToolInstance (registerTool (registerTool tools new) new) (tool_id new) = Some merged)) \<and>
   length tools \<le> length (registerTool tools new) \<and>
   (\<forall>i < length tools. tool_id (registerTool tools new ! i) = tool_id (tools ! i))"
proof -
  have idem: "registerTool (registerTool tools new) new = registerTool tools new"
    by (rule registerTool_idempotent)
  have existing: "\<exists>merged. mergedFrom (tools ! i) new merged \<and>
      registerTool tools new = tools[i := merged]"
    if "i < length tools" "tool_id (tools ! i) = tool_id new"
      "\<forall>j < i. tool_id (tools ! j) \<noteq> tool_id new" for i
    using registerTool_existing [OF that] assign_mergedFrom [of "tools ! i" new] by blast
  have stored: "\<exists>merged. mergedFrom old new merged \<and>
      getToolInstance (registerTool (registerTool tools new) new) (tool_id new) = Some merged"
    if "getToolInstance tools (tool_id new) = Some old" for old
    unfolding idem
    using registerTool_lookup_existing [OF that] assign_mergedFrom [of old new] by blast
  have fresh: "getToolInstance (registerTool (registerTool tools new) new) (tool_id new) = Some new"
    if "getToolInstance tools (tool_id new) = None"
    unfolding idem by (rule registerTool_lookup_new [OF that])
  show ?thesis
    using registerTool_new [of tools new] existing idem stored fresh
      registerTool_length [of tools new] registerTool_keeps_ids [of _ tools new]
    by simp
qed

theorem C7_register_upsert_witness:
  "getToolInstance [] (tool_id fileProcessor) = None \<and>
   registerTool [] fileProcessor = [fileProcessor] \<and>
   registerTool (registerTool [] fileProcessor) fileProcessor = [fileProcessor] \<and>
   getToolInstance (registerTool (registerTool [] fileProcessor) fileProcessor) (tool_id fileProcessor)
     = Some fileProcessor \<and>
   getToolInstance exampleRegistry (tool_id fileProcessorUpdate) = Some fileProcessor \<and>
   mergedFrom fileProcessor fileProcessorUpdate (fileProcessor\<lparr>tool_version := Some ''0.2.0''\<rparr>) \<and>
   getToolInstance
     (registerTool (registerTool exampleRegistry fileProcessorUpdate) fileProcessorUpdate)
     (tool_id fileProcessorUpdate) = Some (fileProcessor\<lparr>tool_version := Some ''0.2.0''\<rparr>)"
proof -
  have a: "getToolInstance [] (tool_id fileProcessor) = None"
    by (simp add: getToolInstance_def)
  have b: "getToolInstance exampleRegistry (tool_id fileProcessorUpdate) = Some fileProcessor"
    by (simp add: getToolInstance_def exampleRegistry_def fileProcessor_def fileProcessorUpdate_def)
  have c: "mergedFrom fileProcessor fileProcessorUpdate (fileProcessor\<lparr>tool_version := Some ''0.2.0''\<rparr>)"
    by (simp add: mergedFrom_def fileProcessor_def fileProcessorUpdate_def)
  from C7_register_upsert [of exampleRegistry fileProcessorUpdate] b obtain merged where
    m: "mergedFrom fileProcessor fileProcessorUpdate merged"
    and g: "getToolInstance
       (registerTool (registerTool exampleRegistry fileProcessorUpdate) fileProcessorUpdate)
       (tool_id fileProcessorUpdate) = Some merged"
    by blast
  have "merged = fileProcessor\<lparr>tool_version := Some ''0.2.0''\<rparr>"
    by (rule mergedFrom_unique [OF m c])
  with g have d: "getToolInstance
       (registerTool (registerTool exampleRegistry fileProcessorUpdate) fileProcessorUpdate)
       (tool_id fileProcessorUpdate) = Some (fileProcessor\<lparr>tool_version := Some ''0.2.0''\<rparr>)"
    by simp
  have e: "registerTool [] fileProcessor = [fileProcessor]"
    "registerTool (registerTool [] fileProcessor) fileProcessor = [fileProcessor]"
    "getToolInstance (registerTool (registerTool [] fileProcessor) fileProcessor) (tool_id fileProcessor)
       = Some fileProcessor"
    using C7_register_upsert [of "[]" fileProcessor] a
    by (simp_all add: assign_same getToolInstance_def)
  show ?thesis
    using a b c d e by simp
qed

lemma generateToolDefinition_id_slug:
  assumes "\<not> truthyStr (tool_id d)" "tool_name d = Some n"
  shows "generateToolDefinition_id d = Inr (d\<lparr>tool_id := Some (slugify n)\<rparr>)"
  using assms by (simp add: generateToolDefinition_id_def)

lemma slug_myTool: "slugify ''My Tool'' = ''my-tool''"
  by code_simp

lemma generateToolDefinition_id_myTool:
  "generateToolDefinition_id myTool = Inr (myTool\<lparr>tool_id := Some ''my-tool''\<rparr>)"
  using generateToolDefinition_id_slug [of myTool "''My Tool''"]
  by (simp add: slug_myTool myTool_def truthyStr_def)

text \<open>
  A tool without an id and without a type, registered in an empty registry, is stored
  without an id, and nothing is stored under the slug of its name.
\<close>

theorem C9_counterexample:
  "tool_name plainTool = Some ''My Tool'' \<and>
   map tool_id (registerTool [] plainTool) = [None] \<and>
   getToolInstance (registerTool [] plainTool) (Some ''my-tool'') = None"
  by (simp add: plainTool_def getToolInstance_def)

text \<open>
  Claim C9, amended: the registry's register operation derives no id. Registering a tool
  without an id gives no entry an id and brings no new id into the registry: the ids of
  the entries are as before, or as before followed by one missing id. When every stored
  entry has an id, the tool is appended exactly as passed, so the descriptor stored for it
  carries no id.
\<close>

theorem C9_register_keeps_missing_id:
  "(tool_id new = None \<longrightarrow>
      (\<forall>i < length tools. tool_id (registerTool tools new ! i) = tool_id (tools ! i)) \<and>
      (map tool_id (registerTool tools new) = map tool_id tools \<or>
       map tool_id (registerTool tools new) = map tool_id tools @ [None])) \<and>
   (tool_id new = None \<and> (\<forall>t \<in> set tools. tool_id t \<noteq> None) \<longrightarrow>
      registerTool tools new = tools @ [new] \<and>
      getToolInstance (registerTool tools new) None = Some new)"
proof -
  have a: "getToolInstance tools (tool_id new) = None"
    if "tool_id new = None" "\<forall>t \<in> set tools. tool_id t \<noteq> None"
    using that by (simp add: getToolInstance_def find_None_iff)
  have b: "registerTool tools new = tools @ [new] \<and>
      getToolInstance (registerTool tools new) None = Some new"
    if "tool_id new = None" "\<forall>t \<in> set tools. tool_id t \<noteq> None"
    using registerTool_new [OF a [OF that]] registerTool_lookup_new [OF a [OF that]] that(1)
    by simp
  show ?thesis
    using registerTool_ids [of tools new] registerTool_keeps_ids [of _ tools new] b
    by auto
qed

theorem C9_register_keeps_missing_id_witness:
  "tool_id plainTool = None \<and>
   map tool_id exampleRegistry = [Some ''file-processor'', Some ''visualization-creator''] \<and>
   registerTool exampleRegistry plainTool = [fileProcessor, visualizationCreator, plainTool] \<and>
   getToolInstance (registerTool exampleRegistry plainTool) None = Some plainTool"
proof -
  have a: "tool_id plainTool = None"
    by (simp add: plainTool_def)
  have b: "\<forall>t \<in> set exampleRegistry. tool_id t \<noteq> None"
    "map tool_id exampleRegistry = [Some ''file-processor'', Some ''visualization-creator'']"
    by (simp_all add: exampleRegistry_def fileProcessor_def visualizationCreator_def)
  show ?thesis
    using C9_register_keeps_missing_id [of plainTool exampleRegistry] a b
    by (simp add: exampleRegistry_def)
qed

section \<open>Plan construction\<close>

lemma hd_sort_key_first_min:
  fixes f :: "'a \<Rightarrow> int"
  assumes "sort_key f xs = y # ys"
  shows "\<exists>before after. xs = before @ y # after \<and>
           (\<forall>b \<in> set before. f y < f b) \<and> (\<forall>c \<in> set after. f y \<le> f c)"
proof -
  have srt: "sorted (map f (y # ys))"
    using sorted_sort_key [of f xs] assms by simp
  have mem: "set xs = set (y # ys)"
    using set_sort [of f xs] assms by simp
  have least: "f y \<le> f z" if "z \<in> set xs" for z
    using srt that mem by auto
  have "filter (\<lambda>z. f z = f y) xs = filter (\<lambda>z. f z = f y) (y # ys)"
    using sort_key_stable [of f "f y" xs] assms by simp
  then have "filter (\<lambda>z. f z = f y) xs = y # filter (\<lambda>z. f z = f y) ys"
    by simp
  then obtain us vs where xs: "xs = us @ y # vs" and us: "\<forall>u \<in> set us. f u \<noteq> f y"
    unfolding filter_eq_Cons_iff by blast
  have "\<forall>b \<in> set us. f y < f b"
    using us least xs by fastforce
  moreover have "\<forall>c \<in> set vs. f y \<le> f c"
    using least xs by simp
  ultimately show ?thesis using xs by blast
qed

lemma filter_eq_middle:
  assumes "filter P xs = bs @ m # cs"
  shows "\<exists>us vs. xs = us @ m # vs \<and> filter P us = bs \<and> filter P vs = cs \<and> P m"
  using assms
proof (induction xs arbitrary: bs)
  case Nil
  then show ?case by simp
next
  case (Cons x xs)
  show ?case
  proof (cases "P x")
    case False
    with Cons.prems have "filter P xs = bs @ m # cs" by simp
    from Cons.IH [OF this] obtain us vs where
      "xs = us @ m # vs" "filter P us = bs" "filter P vs = cs" "P m" by blast
    with False have "x # xs = (x # us) @ m # vs \<and> filter P (x # us) = bs \<and> filter P vs = cs \<and> P m"
      by simp
    then show ?thesis by blast
  next
    case True
    show ?thesis
    proof (cases bs)
      case Nil
      with True Cons.prems have "x = m" "filter P xs = cs" by simp_all
      with True have "x # xs = [] @ m # xs \<and> filter P [] = bs \<and> filter P xs = cs \<and> P m"
        using Nil by simp
      then show ?thesis by blast
    next
      case (Cons b bs')
      with True Cons.prems have "x = b" "filter P xs = bs' @ m # cs" by simp_all
      from Cons.IH [OF this(2)] obtain us vs where
        "xs = us @ m # vs" "filter P us = bs'" "filter P vs = cs" "P m" by blast
      with True \<open>x = b\<close> Cons
      have "x # xs = (x # us) @ m # vs \<and> filter P (x # us) = bs \<and> filter P vs = cs \<and> P m"
        by simp
      then show ?thesis by blast
    qed
  qed
qed

lemma findBest_None:
  "(findBestToolForIntent i ms = None) = (\<forall>m \<in> set ms. \<not> supportsIntent (mt_tool m) i)"
proof -
  let ?fs = "filter (\<lambda>m. supportsIntent (mt_tool m) i) ms"
  have "(sortByScoreDesc ?fs = []) = (?fs = [])"
    using set_sort [of "\<lambda>m. - mt_score m" ?fs] unfolding sortByScoreDesc_def
    by (metis set_empty)
  then show ?thesis
    by (auto simp: findBestToolForIntent_def Let_def filter_empty_conv split: list.splits)
qed

lemma findBest_Some:
  assumes "findBestToolForIntent i ms = Some m"
  shows "bestFor i ms m"
proof -
  let ?P = "\<lambda>m. supportsIntent (mt_tool m) i"
  let ?f = "\<lambda>m. - mt_score m"
  from assms obtain rest where "sort_key ?f (filter ?P ms) = m # rest"
    by (auto simp: findBestToolForIntent_def sortByScoreDesc_def Let_def split: list.splits)
  from hd_sort_key_first_min [OF this] obtain bs cs where
    fs: "filter ?P ms = bs @ m # cs" and
    bs: "\<forall>b \<in> set bs. ?f m < ?f b" and cs: "\<forall>c \<in> set cs. ?f m \<le> ?f c"
    by blast
  from filter_eq_middle [OF fs] obtain us xs where ms2: "ms = us @ m # xs"
    and us: "filter ?P us = bs" and xs: "filter ?P xs = cs" and pm: "?P m"
    by blast
  have before: "\<forall>b \<in> set us. ?P b \<longrightarrow> mt_score b < mt_score m"
  proof (intro ballI impI)
    fix b assume "b \<in> set us" "?P b"
    then have "b \<in> set bs" using us by auto
    with bs show "mt_score b < mt_score m" by auto
  qed
  have after: "\<forall>c \<in> set xs. ?P c \<longrightarrow> mt_score c \<le> mt_score m"
  proof (intro ballI impI)
    fix c assume "c \<in> set xs" "?P c"
    then have "c \<in> set cs" using xs by auto
    with cs show "mt_score c \<le> mt_score m" by auto
  qed
  show ?thesis
    unfolding bestFor_def using ms2 pm before after by blast
qed

lemma bestFor_member: "bestFor i ms m \<Longrightarrow> m \<in> set ms \<and> supportsIntent (mt_tool m) i"
  by (auto simp: bestFor_def)

lemma bestFor_highest:
  "bestFor i ms m \<Longrightarrow> m' \<in> set ms \<Longrightarrow> supportsIntent (mt_tool m') i \<Longrightarrow> mt_score m' \<le> mt_score m"
  by (fastforce simp: bestFor_def)

lemma digit_cases: "d < 10 \<Longrightarrow> d \<in> {0, 1, 2, 3, 4, 5, 6, 7, 8, 9::nat}"
  by auto

lemma digitChar_inj: "d < 10 \<Longrightarrow> e < 10 \<Longrightarrow> digitChar d = digitChar e \<Longrightarrow> d = e"
  by (drule digit_cases, drule digit_cases) (auto simp: digitChar_def)

lemma digitChar_not_colon: "d < 10 \<Longrightarrow> digitChar d \<noteq> CHR '':''"
  by (drule digit_cases) (auto simp: digitChar_def)

lemma showNat_nonempty: "showNat n \<noteq> []" "[] \<noteq> showNat n"
  by (subst showNat.simps, simp)+

lemma showNat_last: "last (showNat n) = digitChar (n mod 10)"
  by (subst showNat.simps) simp

lemma showNat_butlast: "butlast (showNat n) = (if n < 10 then [] else showNat (n div 10))"
  by (subst showNat.simps) simp

lemma showNat_inj: "showNat m = showNat n \<Longrightarrow> m = n"
proof (induction m arbitrary: n rule: less_induct)
  case (less m)
  have l: "digitChar (m mod 10) = digitChar (n mod 10)"
    using less.prems showNat_last by metis
  then have r: "m mod 10 = n mod 10"
    by (intro digitChar_inj) simp_all
  have b: "butlast (showNat m) = butlast (showNat n)"
    using less.prems by simp
  show ?case
  proof (cases "m < 10")
    case True
    with b have "n < 10"
      by (auto simp: showNat_butlast showNat_nonempty split: if_splits)
    with True r show ?thesis by simp
  next
    case False
    with b have n: "\<not> n < 10"
      by (auto simp: showNat_butlast showNat_nonempty split: if_splits)
    with False b have "showNat (m div 10) = showNat (n div 10)"
      by (simp add: showNat_butlast)
    moreover have "m div 10 < m" using False by simp
    ultimately have "m div 10 = n div 10" by (rule less.IH [rotated])
    with r show ?thesis
      by (metis div_mult_mod_eq)
  qed
qed

lemma showNat_no_colon: "CHR '':'' \<notin> set (showNat n)"
proof (induction n rule: showNat.induct)
  case (1 n)
  show ?case
  proof (cases "n < 10")
    case True
    then show ?thesis
      using digitChar_not_colon [of n] by (subst showNat.simps) auto
  next
    case False
    with 1 have "CHR '':'' \<notin> set (showNat (n div 10))" by simp
    moreover have "digitChar (n mod 10) \<noteq> CHR '':''"
      by (rule digitChar_not_colon) simp
    ultimately show ?thesis
      using False by (subst showNat.simps) auto
  qed
qed

lemma stepName_inj: "stepName j = stepName k \<Longrightarrow> j = k"
  by (simp add: stepName_def showNat_inj)

lemma split_at_separator:
  assumes "c \<notin> set xs" "c \<notin> set ys" "xs @ c # r = ys @ c # s"
  shows "xs = ys"
proof -
  have tw: "takeWhile (\<lambda>x. x \<noteq> c) (zs @ c # t) = zs" if "c \<notin> set zs" for zs t
    using that by (induction zs) auto
  have "takeWhile (\<lambda>x. x \<noteq> c) (xs @ c # r) = xs"
    using assms(1) by (rule tw)
  moreover have "takeWhile (\<lambda>x. x \<noteq> c) (ys @ c # s) = ys"
    using assms(2) by (rule tw)
  ultimately show ?thesis using assms(3) by simp
qed

lemma chainEdge_key_inj:
  assumes "fst (chainEdge j) = fst (chainEdge k)"
  shows "j = k"
proof -
  from assms have "showNat j @ CHR '':'' # stepName (j + 1) = showNat k @ CHR '':'' # stepName (k + 1)"
    by (simp add: chainEdge_def flowKey_def stepName_def)
  then have "showNat j = showNat k"
    by (rule split_at_separator [OF showNat_no_colon showNat_no_colon])
  then show ?thesis by (rule showNat_inj)
qed

lemma update_fresh: "k \<notin> fst ` set ps \<Longrightarrow> AList.update k v ps = ps @ [(k, v)]"
  by (induction ps) auto

lemma addFlows_chain:
  assumes "map stepId sts = map stepName [a..<a + length sts]"
    and "\<forall>k \<ge> a. fst (chainEdge k) \<notin> fst ` set df"
  shows "addFlows sts df = df @ map chainEdge [a..<a + (length sts - 1)]"
  using assms
proof (induction sts df arbitrary: a rule: addFlows.induct)
  case (1 cur nxt rest df)
  have ids: "stepId cur = stepName a" "stepId nxt = stepName (a + 1)"
    and tl: "map stepId (nxt # rest) = map stepName [a + 1..<(a + 1) + length (nxt # rest)]"
    using "1.prems"(1) by (simp_all add: upt_conv_Cons del: upt_Suc)
  let ?df = "AList.update (flowKey (stepId cur) (stepId nxt))
          \<lparr>df_from = stepId cur, df_to = stepId nxt, mappings = resultToInput\<rparr> df"
  have upd: "?df = df @ [chainEdge a]"
    using "1.prems"(2) [rule_format, of a] unfolding ids
    by (simp add: update_fresh chainEdge_def flowKey_def resultToInput_def)
  have fresh: "\<forall>k \<ge> a + 1. fst (chainEdge k) \<notin> fst ` set ?df"
  proof (intro allI impI)
    fix k assume k: "a + 1 \<le> k"
    then have "fst (chainEdge k) \<noteq> fst (chainEdge a)"
      using chainEdge_key_inj [of k a] by auto
    moreover have "fst (chainEdge k) \<notin> fst ` set df"
      using "1.prems"(2) k by simp
    ultimately show "fst (chainEdge k) \<notin> fst ` set ?df"
      unfolding upd by auto
  qed
  have "addFlows (nxt # rest) ?df = ?df @ map chainEdge [a + 1..<(a + 1) + (length (nxt # rest) - 1)]"
    by (rule "1.IH" [OF tl fresh])
  then show ?case
    by (simp add: upd upt_conv_Cons del: upt_Suc)
next
  case (2 s df)
  then show ?case by simp
next
  case (3 df)
  then show ?case by simp
qed

lemma createDataFlowMap_chain:
  assumes "map stepId sts = map stepName [1..<1 + length sts]"
  shows "createDataFlowMap sts = map chainEdge [1..<length sts]"
proof (cases sts)
  case Nil
  then show ?thesis by (simp add: createDataFlowMap_def)
next
  case (Cons s rest)
  then have eq: "1 + (length sts - 1) = length sts" by simp
  have "\<forall>k \<ge> 1. fst (chainEdge k) \<notin> fst ` set []" by simp
  from addFlows_chain [OF assms this]
  have "addFlows sts [] = [] @ map chainEdge [1..<1 + (length sts - 1)]" .
  then show ?thesis
    by (simp only: eq createDataFlowMap_def append_Nil)
qed

lemma supportsIntent_declared: "supportsIntent t i = (i \<in> declaredIntents t)"
  by (simp add: supportsIntent_def declaredIntents_def split: option.splits)

lemma findBest_declared:
  "(\<exists>m \<in> set ms. i \<in> declaredIntents (mt_tool m)) = (findBestToolForIntent i ms \<noteq> None)"
  by (simp add: findBest_None supportsIntent_declared)

lemma addressed_Cons:
  "addressed (i # rest) ms =
     (if i \<noteq> UNKNOWN \<and> findBestToolForIntent i ms \<noteq> None then i # addressed rest ms
      else addressed rest ms)"
  by (simp add: addressed_def findBest_declared)

lemma addressed_Nil: "addressed [] ms = []"
  by (simp add: addressed_def)

lemma buildSteps_stepIds:
  "map stepId (fst (buildSteps is ents ms (sts, A))) =
     map stepId sts @ map stepName [length sts + 1..<length sts + 1 + length (addressed is ms)]"
proof (induction "is" arbitrary: sts A)
  case Nil
  then show ?case by (simp add: addressed_Nil)
next
  case (Cons i rest)
  show ?case
  proof (cases "i \<noteq> UNKNOWN \<and> findBestToolForIntent i ms \<noteq> None")
    case False
    then show ?thesis
      using Cons.IH [of sts A] by (auto simp: addressed_Cons)
  next
    case True
    then obtain m where m: "findBestToolForIntent i ms = Some m" by blast
    show ?thesis
      using True m Cons.IH
      by (simp add: addressed_Cons stepName_def upt_conv_Cons del: upt_Suc)
  qed
qed

lemma buildSteps_intents:
  "map st_intent (fst (buildSteps is ents ms (sts, A))) = map st_intent sts @ addressed is ms"
proof (induction "is" arbitrary: sts A)
  case Nil
  then show ?case by (simp add: addressed_Nil)
next
  case (Cons i rest)
  then show ?case
    by (cases "findBestToolForIntent i ms") (simp_all add: addressed_Cons)
qed

lemma buildSteps_addressed:
  "snd (buildSteps is ents ms (sts, A)) = A \<union> set (addressed is ms)"
proof (induction "is" arbitrary: sts A)
  case Nil
  then show ?case by (simp add: addressed_Nil)
next
  case (Cons i rest)
  then show ?case
    by (cases "findBestToolForIntent i ms") (simp_all add: addressed_Cons)
qed

lemma buildSteps_builtFrom:
  assumes "\<forall>s \<in> set sts. builtFrom ents ms s"
  shows "\<forall>s \<in> set (fst (buildSteps is ents ms (sts, A))). builtFrom ents ms s"
  using assms
proof (induction "is" arbitrary: sts A)
  case Nil
  then show ?case by simp
next
  case (Cons i rest)
  show ?case
  proof (cases "findBestToolForIntent i ms")
    case None
    then show ?thesis using Cons by simp
  next
    case (Some m)
    let ?s = "\<lparr>stepId = ''step_'' @ showNat (length sts + 1), st_intent = i,
               toolId = tool_id (mt_tool m), toolName = tool_name (mt_tool m),
               inputParams = determineInputParams i ents (mt_tool m),
               outputParams = determineOutputParams i (mt_tool m)\<rparr>"
    have "builtFrom ents ms ?s"
      using Some by (simp add: builtFrom_def)
    then have "\<forall>s \<in> set (sts @ [?s]). builtFrom ents ms s"
      using Cons.prems by simp
    from Cons.IH [OF this] show ?thesis
      using Some Cons.IH [OF Cons.prems] by simp
  qed
qed

lemma plan_steps:
  assumes "an_matchedTools a \<noteq> []"
  shows "steps (createExecutionPlan now rnd a) =
           Some (fst (buildSteps (an_intents a) (an_entities a) (an_matchedTools a) ([], {})))"
    and "dataFlow (createExecutionPlan now rnd a) =
           Some (createDataFlowMap (fst (buildSteps (an_intents a) (an_entities a) (an_matchedTools a) ([], {}))))"
    and "canExecute (createExecutionPlan now rnd a) =
           (fst (buildSteps (an_intents a) (an_entities a) (an_matchedTools a) ([], {})) \<noteq> [])"
  using assms by (simp_all add: createExecutionPlan_def Let_def split: prod.splits)

text \<open>
  Claim C6: when the matched-tool list is not empty, the plan has one step for each
  addressed intent, in the order of the intent list; an entry of the intent list is
  addressed when it is not UNKNOWN and some matched tool declares it. With \<open>N\<close> such
  entries the plan has \<open>N\<close> steps, their ids are \<open>step_1\<close> to \<open>step_N\<close> in order, the
  data flow consists of the \<open>N - 1\<close> entries for the edges from \<open>step_k\<close> to
  \<open>step_(k+1)\<close>, each with the single mapping from \<open>result\<close> to \<open>input\<close>, and
  \<open>canExecute\<close> holds exactly when at least one step was emitted.
\<close>

theorem C6_plan_chain:
  assumes "an_matchedTools a \<noteq> []"
  shows "\<exists>sts. steps (createExecutionPlan now rnd a) = Some sts \<and>
           length sts = length (addressed (an_intents a) (an_matchedTools a)) \<and>
           map st_intent sts = addressed (an_intents a) (an_matchedTools a) \<and>
           map stepId sts = map stepName [1..<length sts + 1] \<and>
           dataFlow (createExecutionPlan now rnd a) = Some (map chainEdge [1..<length sts]) \<and>
           canExecute (createExecutionPlan now rnd a) = (0 < length sts)"
proof -
  let ?sts = "fst (buildSteps (an_intents a) (an_entities a) (an_matchedTools a) ([], {}))"
  have i: "map st_intent ?sts = addressed (an_intents a) (an_matchedTools a)"
    using buildSteps_intents [of "an_intents a" "an_entities a" "an_matchedTools a" "[]" "{}"]
    by simp
  then have l: "length ?sts = length (addressed (an_intents a) (an_matchedTools a))"
    by (metis length_map)
  have n: "map stepId ?sts = map stepName [1..<1 + length ?sts]"
    using buildSteps_stepIds [of "an_intents a" "an_entities a" "an_matchedTools a" "[]" "{}"]
    by (simp add: l)
  have d: "createDataFlowMap ?sts = map chainEdge [1..<length ?sts]"
    by (rule createDataFlowMap_chain [OF n])
  show ?thesis
    using plan_steps [OF assms, of now rnd] i l n d by simp
qed

lemma plan_stepIds_distinct:
  assumes "an_matchedTools a \<noteq> []" "steps (createExecutionPlan now rnd a) = Some sts"
  shows "distinct (map stepId sts)"
proof -
  have "map stepId sts = map stepName [0 + 1..<0 + 1 + length (addressed (an_intents a) (an_matchedTools a))]"
    using buildSteps_stepIds [of "an_intents a" "an_entities a" "an_matchedTools a" "[]" "{}"]
      assms(2)
    unfolding plan_steps(1) [OF assms(1)] by simp
  moreover have "inj stepName"
    by (rule injI) (rule stepName_inj)
  ultimately show ?thesis
    by (simp add: distinct_map inj_on_def stepName_inj)
qed

lemma card_addressed:
  assumes "distinct intents"
  shows "card (snd (buildSteps intents ents ms ([], {}))) = length (addressed intents ms)"
proof -
  have "distinct (addressed intents ms)"
    using assms by (simp add: addressed_def)
  from distinct_card [OF this] show ?thesis
    by (simp add: buildSteps_addressed)
qed


lemma plan_step_builtFrom:
  assumes "an_matchedTools a \<noteq> []" "steps (createExecutionPlan now rnd a) = Some sts" "s \<in> set sts"
  shows "builtFrom (an_entities a) (an_matchedTools a) s"
proof -
  have "\<forall>s \<in> set []. builtFrom (an_entities a) (an_matchedTools a) s" by simp
  from buildSteps_builtFrom [OF this, of "an_intents a" "{}"] assms(2,3)
  show ?thesis
    unfolding plan_steps(1) [OF assms(1)] by simp
qed

text \<open>
  Claim C10: when the matched-tool list is not empty, the tool of every step of the plan
  is an entry of the matched-tool list that declares the step's intent, no entry that
  declares the intent has a higher score, and among the entries with that score it is the
  first in the order of the list; so no step exists for an intent that no matched tool
  declares.
\<close>

theorem C10_selected_tool:
  assumes "an_matchedTools a \<noteq> []"
    and "steps (createExecutionPlan now rnd a) = Some sts"
    and "s \<in> set sts"
  shows "\<exists>m. m \<in> set (an_matchedTools a) \<and>
             toolId s = tool_id (mt_tool m) \<and> toolName s = tool_name (mt_tool m) \<and>
             supportsIntent (mt_tool m) (st_intent s) \<and>
             (\<forall>m' \<in> set (an_matchedTools a).
                supportsIntent (mt_tool m') (st_intent s) \<longrightarrow> mt_score m' \<le> mt_score m) \<and>
             bestFor (st_intent s) (an_matchedTools a) m"
proof -
  from plan_step_builtFrom [OF assms] obtain m where
    m: "findBestToolForIntent (st_intent s) (an_matchedTools a) = Some m"
    and t: "toolId s = tool_id (mt_tool m)" "toolName s = tool_name (mt_tool m)"
    unfolding builtFrom_def by blast
  have b: "bestFor (st_intent s) (an_matchedTools a) m"
    by (rule findBest_Some [OF m])
  show ?thesis
    using t b bestFor_member [OF b] bestFor_highest [OF b] by blast
qed

lemma entityParams_map: "map_of (entityParams i ents) = entityDefaults i ents"
  by (cases i; cases "files ents"; cases "dataTypes ents"; cases "visualizationTypes ents";
      cases "codeLanguages ents")
     (auto simp: firstAs_def firstOf_def fun_eq_iff map_add_def)

lemma entityParams_rev_map: "map_of (rev (entityParams i ents)) = entityDefaults i ents"
  by (cases i; cases "files ents"; cases "dataTypes ents"; cases "visualizationTypes ents";
      cases "codeLanguages ents")
     (auto simp: firstAs_def firstOf_def fun_eq_iff map_add_def)

lemma spread_map: "map_of (spread a b) = map_of a ++ map_of (rev b)"
  unfolding spread_def
proof (induction b arbitrary: a)
  case Nil
  then show ?case by simp
next
  case (Cons x b)
  obtain k v where x: "x = (k, v)" by (cases x)
  have "map_of (fold (\<lambda>(k, v). AList.update k v) b (AList.update k v a)) =
          map_of (AList.update k v a) ++ map_of (rev b)"
    by (rule Cons.IH)
  also have "\<dots> = map_of a ++ ([k \<mapsto> v] ++ map_of (rev b))"
    by (simp add: update_conv' fun_eq_iff map_add_def split: option.splits)
  also have "[k \<mapsto> v] ++ map_of (rev b) = map_of (rev (x # b))"
    by (simp add: x fun_eq_iff map_add_def split: option.splits)
  finally show ?case by (simp add: x)
qed

lemma determineInputParams_map:
  "map_of (determineInputParams i ents t) = toolDefaults t ++ entityDefaults i ents"
proof (cases "defaultParams t")
  case None
  then show ?thesis
    using entityParams_map [of i ents]
    by (simp add: determineInputParams_def toolDefaults_def)
next
  case (Some d)
  then show ?thesis
    by (simp add: determineInputParams_def toolDefaults_def spread_map entityParams_rev_map)
qed

text \<open>
  Claim C2, amended: the input parameters of every emitted step are the selected tool's
  \<open>defaultParams\<close> overlaid with the parameters derived from the entities for the step's
  intent (FILE_OPERATION: first file as \<open>filePath\<close>; DATA_PROCESSING: first file as
  \<open>inputFile\<close>, first data type as \<open>dataType\<close>; CODE_GENERATION: first language as
  \<open>language\<close>; VISUALIZATION: first file as \<open>dataSource\<close>, first visualization type as
  \<open>visualizationType\<close>; other intents none): on a key that both have, the entity-derived
  value wins.
\<close>

theorem C2_input_params:
  assumes "an_matchedTools a \<noteq> []"
    and "steps (createExecutionPlan now rnd a) = Some sts"
    and "s \<in> set sts"
  shows "\<exists>m. findBestToolForIntent (st_intent s) (an_matchedTools a) = Some m \<and>
             toolId s = tool_id (mt_tool m) \<and>
             map_of (inputParams s) =
               toolDefaults (mt_tool m) ++ entityDefaults (st_intent s) (an_entities a)"
  using plan_step_builtFrom [OF assms] unfolding builtFrom_def
  by (auto simp: determineInputParams_map)

subsection \<open>The plan of the quick-start query\<close>

lemma example_findBest:
  "findBestToolForIntent FILE_OPERATION exampleMatched = Some \<lparr>mt_tool = fileProcessor, mt_score = 15\<rparr>"
  "findBestToolForIntent DATA_PROCESSING exampleMatched = Some \<lparr>mt_tool = visualizationCreator, mt_score = 22\<rparr>"
  "findBestToolForIntent VISUALIZATION exampleMatched = Some \<lparr>mt_tool = visualizationCreator, mt_score = 22\<rparr>"
  by (simp_all add: findBestToolForIntent_def sortByScoreDesc_def supportsIntent_def capList_def
      exampleMatched_def fileProcessor_def visualizationCreator_def)

lemma example_showNat: "showNat (Suc 0) = ''1''" "showNat (Suc (Suc 0)) = ''2''"
  "showNat (Suc (Suc (Suc 0))) = ''3''"
  "showNat 1700000000000 = ''1700000000000''" "showNat 42 = ''42''"
  by (simp_all add: showNat.simps digitChar_def)

lemma example_params:
  "determineInputParams FILE_OPERATION exampleEntities fileProcessor = inputParams exampleStep1"
  "determineInputParams DATA_PROCESSING exampleEntities visualizationCreator = inputParams exampleStep2"
  "determineInputParams VISUALIZATION exampleEntities visualizationCreator = inputParams exampleStep3"
  "determineOutputParams FILE_OPERATION fileProcessor = outputParams exampleStep1"
  "determineOutputParams DATA_PROCESSING visualizationCreator = outputParams exampleStep2"
  "determineOutputParams VISUALIZATION visualizationCreator = outputParams exampleStep3"
  by (simp_all add: exampleStep1_def exampleStep2_def exampleStep3_def
      determineInputParams_def determineOutputParams_def spread_def
      fileProcessor_def visualizationCreator_def exampleEntities_def firstAs_def)

lemma example_buildSteps:
  "buildSteps exampleIntents exampleEntities exampleMatched ([], {}) =
     (exampleSteps, {FILE_OPERATION, DATA_PROCESSING, VISUALIZATION})"
  apply (simp add: exampleIntents_def example_findBest example_showNat example_params)
  apply (simp add: exampleSteps_def exampleStep1_def exampleStep2_def exampleStep3_def
      fileProcessor_def visualizationCreator_def)
  apply blast
  done

lemma example_analysis_fields:
  "an_intents exampleAnalysis = exampleIntents"
  "an_entities exampleAnalysis = exampleEntities"
  "an_matchedTools exampleAnalysis = exampleMatched"
  by (simp_all add: exampleAnalysis_def)

lemma example_plan: "createExecutionPlan 1700000000000 42 exampleAnalysis = examplePlan"
proof -
  have n: "length exampleMatched \<noteq> 0"
    by (simp add: exampleMatched_def)
  show ?thesis
    unfolding createExecutionPlan_def Let_def example_analysis_fields example_buildSteps
    using n
    by (simp add: examplePlan_def exampleIntents_def generatePlanId_def example_showNat
        createDataFlowMap_def exampleSteps_def exampleStep1_def exampleStep2_def exampleStep3_def
        flowKey_def resultToInput_def)
qed

lemma example_steps_of_plan: "steps examplePlan = Some exampleSteps"
  by (simp add: examplePlan_def)

lemma example_addressed: "addressed exampleIntents exampleMatched = exampleIntents"
  by (simp add: addressed_def findBest_declared exampleIntents_def example_findBest)

text \<open>
  For the file processor, whose default parameters contain \<open>filePath\<close>, and the entities
  of the quick-start query, the parameters are not the entity-derived ones overlaid with
  the tool's defaults: \<open>filePath\<close> carries the file of the query.
\<close>

theorem C2_counterexample:
  "map_of (determineInputParams FILE_OPERATION exampleEntities fileProcessor) \<noteq>
     entityDefaults FILE_OPERATION exampleEntities ++ toolDefaults fileProcessor"
proof
  assume "map_of (determineInputParams FILE_OPERATION exampleEntities fileProcessor) =
     entityDefaults FILE_OPERATION exampleEntities ++ toolDefaults fileProcessor"
  then have "map_of (determineInputParams FILE_OPERATION exampleEntities fileProcessor) ''filePath'' =
     (entityDefaults FILE_OPERATION exampleEntities ++ toolDefaults fileProcessor) ''filePath''"
    by simp
  then show False
    unfolding example_params
    by (simp add: exampleStep1_def toolDefaults_def fileProcessor_def exampleEntities_def firstOf_def)
qed

theorem C2_input_params_witness:
  "an_matchedTools exampleAnalysis \<noteq> [] \<and>
   steps (createExecutionPlan 1700000000000 42 exampleAnalysis) = Some exampleSteps \<and>
   exampleStep1 \<in> set exampleSteps \<and>
   map_of (inputParams exampleStep1) =
     toolDefaults fileProcessor ++ entityDefaults FILE_OPERATION exampleEntities \<and>
   map_of (inputParams exampleStep1) ''filePath'' = Some (JStr ''sales.csv'')"
proof -
  have h1: "an_matchedTools exampleAnalysis \<noteq> []"
    by (simp add: exampleAnalysis_def exampleMatched_def)
  have h2: "steps (createExecutionPlan 1700000000000 42 exampleAnalysis) = Some exampleSteps"
    by (simp add: example_plan example_steps_of_plan)
  have h3: "exampleStep1 \<in> set exampleSteps"
    by (simp add: exampleSteps_def)
  have i: "st_intent exampleStep1 = FILE_OPERATION"
    by (simp add: exampleStep1_def)
  from C2_input_params [OF h1 h2 h3]
  have "map_of (inputParams exampleStep1) =
      toolDefaults fileProcessor ++ entityDefaults FILE_OPERATION exampleEntities"
    by (auto simp: i example_analysis_fields example_findBest)
  moreover have "map_of (inputParams exampleStep1) ''filePath'' = Some (JStr ''sales.csv'')"
    by (simp add: exampleStep1_def)
  ultimately show ?thesis using h1 h2 h3 by simp
qed

theorem C6_plan_chain_witness:
  "an_matchedTools exampleAnalysis \<noteq> [] \<and>
   steps (createExecutionPlan 1700000000000 42 exampleAnalysis) = Some exampleSteps \<and>
   length exampleSteps = 3 \<and>
   map stepId exampleSteps = [''step_1'', ''step_2'', ''step_3''] \<and>
   dataFlow (createExecutionPlan 1700000000000 42 exampleAnalysis) =
     Some [(''step_1:step_2'',
            \<lparr>df_from = ''step_1'', df_to = ''step_2'',
             mappings = [\<lparr>fromParam = ''result'', toParam = ''input''\<rparr>]\<rparr>),
           (''step_2:step_3'',
            \<lparr>df_from = ''step_2'', df_to = ''step_3'',
             mappings = [\<lparr>fromParam = ''result'', toParam = ''input''\<rparr>]\<rparr>)] \<and>
   canExecute (createExecutionPlan 1700000000000 42 exampleAnalysis)"
proof -
  have h1: "an_matchedTools exampleAnalysis \<noteq> []"
    by (simp add: exampleAnalysis_def exampleMatched_def)
  have h2: "steps (createExecutionPlan 1700000000000 42 exampleAnalysis) = Some exampleSteps"
    by (simp add: example_plan example_steps_of_plan)
  have l: "length exampleSteps = 3"
    by (simp add: exampleSteps_def)
  have n: "map stepName [1..<length exampleSteps + 1] = [''step_1'', ''step_2'', ''step_3'']"
    by (simp add: l stepName_def example_showNat upt_conv_Cons del: upt_Suc)
  have k: "map chainEdge [1..<length exampleSteps] =
      [(''step_1:step_2'',
        \<lparr>df_from = ''step_1'', df_to = ''step_2'',
         mappings = [\<lparr>fromParam = ''result'', toParam = ''input''\<rparr>]\<rparr>),
       (''step_2:step_3'',
        \<lparr>df_from = ''step_2'', df_to = ''step_3'',
         mappings = [\<lparr>fromParam = ''result'', toParam = ''input''\<rparr>]\<rparr>)]"
    by (simp add: l upt_conv_Cons numeral_2_eq_2 chainEdge_def stepName_def example_showNat
        del: upt_Suc)
  from C6_plan_chain [OF h1, of 1700000000000 42] obtain sts where
    s: "steps (createExecutionPlan 1700000000000 42 exampleAnalysis) = Some sts"
    and i: "map stepId sts = map stepName [1..<length sts + 1]"
    and d: "dataFlow (createExecutionPlan 1700000000000 42 exampleAnalysis) =
              Some (map chainEdge [1..<length sts])"
    and c: "canExecute (createExecutionPlan 1700000000000 42 exampleAnalysis) = (0 < length sts)"
    by blast
  have e: "sts = exampleSteps"
    using s h2 by simp
  show ?thesis
    using h1 h2 l i d c unfolding e n k by simp
qed

theorem C10_selected_tool_witness:
  "an_matchedTools exampleAnalysis \<noteq> [] \<and>
   steps (createExecutionPlan 1700000000000 42 exampleAnalysis) = Some exampleSteps \<and>
   exampleStep2 \<in> set exampleSteps \<and>
   (\<exists>m. m \<in> set exampleMatched \<and>
        toolId exampleStep2 = tool_id (mt_tool m) \<and>
        supportsIntent (mt_tool m) DATA_PROCESSING \<and>
        bestFor DATA_PROCESSING exampleMatched m)"
proof -
  have h1: "an_matchedTools exampleAnalysis \<noteq> []"
    by (simp add: exampleAnalysis_def exampleMatched_def)
  have h2: "steps (createExecutionPlan 1700000000000 42 exampleAnalysis) = Some exampleSteps"
    by (simp add: example_plan example_steps_of_plan)
  have h3: "exampleStep2 \<in> set exampleSteps"
    by (simp add: exampleSteps_def)
  have i: "st_intent exampleStep2 = DATA_PROCESSING"
    by (simp add: exampleStep2_def)
  from C10_selected_tool [OF h1 h2 h3]
  have "\<exists>m. m \<in> set exampleMatched \<and>
        toolId exampleStep2 = tool_id (mt_tool m) \<and>
        supportsIntent (mt_tool m) DATA_PROCESSING \<and>
        bestFor DATA_PROCESSING exampleMatched m"
    unfolding i example_analysis_fields by blast
  then show ?thesis using h1 h2 h3 by simp
qed

section \<open>Plan execution\<close>

lemma caught_fields [simp]:
  "overallSuccess (caught step e st) = False"
  "stepResults (caught step e st) = (stepResults st)(stepId step \<mapsto> failed (message e))"
  "invoked (caught step e st) = invoked st"
  by (simp_all add: caught_def)

lemma runSteps_keeps:
  "k \<notin> stepId ` set sts \<Longrightarrow> stepResults (runSteps eng tools df sts st) k = stepResults st k"
proof (induction sts arbitrary: st)
  case Nil
  then show ?case by simp
next
  case (Cons step rest)
  then show ?case
    by (auto split: option.splits sum.splits)
qed

lemma runSteps_append:
  assumes "overallSuccess (runSteps eng tools df pre st)"
  shows "runSteps eng tools df (pre @ rest) st = runSteps eng tools df rest (runSteps eng tools df pre st)"
  using assms
proof (induction pre arbitrary: st)
  case Nil
  then show ?case by simp
next
  case (Cons step pre)
  then show ?case
    by (auto split: option.splits sum.splits)
qed

lemma runSteps_success_results:
  assumes "overallSuccess (runSteps eng tools df sts st)" "distinct (map stepId sts)"
  shows "\<forall>s \<in> set sts. \<exists>v. stepResults (runSteps eng tools df sts st) (stepId s) = Some (succeeded v)"
  using assms
proof (induction sts arbitrary: st)
  case Nil
  then show ?case by simp
next
  case (Cons step rest)
  from Cons.prems(1) obtain toolInstance ip res where
    t: "getToolInstance tools (toolId step) = Some toolInstance"
    and i: "transformInputParams eng step (stepResults st) df = Inr ip"
    and r: "executeTool toolInstance ip = Inr res"
    by (auto split: option.splits sum.splits)
  let ?st = "st\<lparr>stepResults := (stepResults st)(stepId step \<mapsto> succeeded res),
                invoked := invoked st @ [stepId step]\<rparr>"
  have run: "runSteps eng tools df (step # rest) st = runSteps eng tools df rest ?st"
    using t i r by simp
  have fresh: "stepId step \<notin> stepId ` set rest"
    using Cons.prems(2) by auto
  have first: "stepResults (runSteps eng tools df rest ?st) (stepId step) = Some (succeeded res)"
    using runSteps_keeps [OF fresh, of eng tools df ?st] by simp
  have others: "\<forall>s \<in> set rest. \<exists>v. stepResults (runSteps eng tools df rest ?st) (stepId s) = Some (succeeded v)"
    using Cons.IH [of ?st] Cons.prems run by simp
  show ?case
    unfolding run using first others by auto
qed

lemma runSteps_success_invoked:
  assumes "overallSuccess (runSteps eng tools df sts st)"
  shows "invoked (runSteps eng tools df sts st) = invoked st @ map stepId sts"
  using assms
proof (induction sts arbitrary: st)
  case Nil
  then show ?case by simp
next
  case (Cons step rest)
  then show ?case
    by (auto split: option.splits sum.splits)
qed

lemma runSteps_missing_tool:
  assumes "getToolInstance tools (toolId s) = None"
  shows "runSteps eng tools df (s # post) st =
           st\<lparr>stepResults := (stepResults st)(stepId s \<mapsto> failed (notFound s)),
              overallSuccess := False, errorMessage := Some (notFound s)\<rparr>"
  using assms by simp

text \<open>
  Claim C4: let the plan be executable, its step ids pairwise distinct, all steps before
  step \<open>s\<close> run successfully, and the tool id of \<open>s\<close> be absent from the registry. Then
  \<open>executeRequest\<close> returns a result with \<open>success = false\<close> and the error
  \<open>Tool <id> not found\<close> naming the tool id of \<open>s\<close>; the result of every earlier step
  is in the step results as the loop recorded it, a successful one; the entry for \<open>s\<close> is
  the failure; no later step has an entry; and \<open>executeTool\<close> was called for the earlier
  steps only.
\<close>

theorem C4_missing_tool:
  assumes "steps p = Some (pre @ s # post)"
    and "canExecute p"
    and "distinct (map stepId (pre @ s # post))"
    and "overallSuccess (runSteps eng tools (dataFlow p) pre initialState)"
    and "getToolInstance tools (toolId s) = None"
  shows "\<exists>r. executeRequest eng tools p = Inr (Ran r) \<and>
             er_success r = False \<and>
             er_error r = Some (''Tool '' @ render (toolId s) @ '' not found'') \<and>
             (\<forall>q \<in> set pre.
                er_stepResults r (stepId q) =
                  stepResults (runSteps eng tools (dataFlow p) pre initialState) (stepId q) \<and>
                (\<exists>v. er_stepResults r (stepId q) = Some (succeeded v))) \<and>
             er_stepResults r (stepId s) =
               Some (failed (''Tool '' @ render (toolId s) @ '' not found'')) \<and>
             (\<forall>q \<in> set post. er_stepResults r (stepId q) = None) \<and>
             er_invoked r = map stepId pre"
proof -
  let ?mid = "runSteps eng tools (dataFlow p) pre initialState"
  let ?fin = "?mid\<lparr>stepResults := (stepResults ?mid)(stepId s \<mapsto> failed (notFound s)),
                   overallSuccess := False, errorMessage := Some (notFound s)\<rparr>"
  let ?r = "\<lparr>er_planId = planId p, er_success = overallSuccess ?fin,
             er_stepResults = stepResults ?fin, er_error = errorMessage ?fin,
             er_invoked = invoked ?fin\<rparr>"
  have run: "runSteps eng tools (dataFlow p) (pre @ s # post) initialState = ?fin"
    unfolding runSteps_append [OF assms(4)] runSteps_missing_tool [OF assms(5)] ..
  have ex: "executeRequest eng tools p = Inr (Ran ?r)"
    using assms(1,2) by (simp add: executeRequest_def Let_def run)
  have d1: "distinct (map stepId pre)"
    using assms(3) by simp
  have o1: "stepId s \<notin> stepId ` set pre"
    using assms(3) by simp
  have o2: "stepId s \<notin> stepId ` set post"
    using assms(3) by simp
  have o3: "stepId ` set pre \<inter> stepId ` set post = {}"
    using assms(3) by simp
  have d2: "stepId q \<noteq> stepId s" if "q \<in> set pre" for q
  proof
    assume "stepId q = stepId s"
    moreover have "stepId q \<in> stepId ` set pre"
      using that by (rule imageI)
    ultimately have "stepId s \<in> stepId ` set pre"
      by simp
    with o1 show False ..
  qed
  have d3: "stepId q \<noteq> stepId s" if "q \<in> set post" for q
  proof
    assume "stepId q = stepId s"
    moreover have "stepId q \<in> stepId ` set post"
      using that by (rule imageI)
    ultimately have "stepId s \<in> stepId ` set post"
      by simp
    with o2 show False ..
  qed
  have d4: "stepId q \<notin> stepId ` set pre" if "q \<in> set post" for q
  proof
    assume "stepId q \<in> stepId ` set pre"
    moreover have "stepId q \<in> stepId ` set post"
      using that by (rule imageI)
    ultimately have "stepId q \<in> stepId ` set pre \<inter> stepId ` set post"
      by (rule IntI)
    with o3 show False by simp
  qed
  have before: "\<forall>q \<in> set pre. \<exists>v. stepResults ?mid (stepId q) = Some (succeeded v)"
    by (rule runSteps_success_results [OF assms(4) d1])
  have kept: "\<forall>q \<in> set pre. stepResults ?fin (stepId q) = stepResults ?mid (stepId q)"
    using d2 by simp
  have after: "\<forall>q \<in> set post. stepResults ?fin (stepId q) = None"
  proof
    fix q assume q: "q \<in> set post"
    have "stepResults ?mid (stepId q) = stepResults initialState (stepId q)"
      by (rule runSteps_keeps [OF d4 [OF q]])
    then show "stepResults ?fin (stepId q) = None"
      using d3 [OF q] by (simp add: initialState_def)
  qed
  have inv: "invoked ?fin = map stepId pre"
    using runSteps_success_invoked [OF assms(4)] by (simp add: initialState_def)
  have "er_success ?r = False" "er_error ?r = Some (''Tool '' @ render (toolId s) @ '' not found'')"
    "er_stepResults ?r (stepId s) = Some (failed (''Tool '' @ render (toolId s) @ '' not found''))"
    by (simp_all add: notFound_def)
  moreover have "\<forall>q \<in> set pre.
      er_stepResults ?r (stepId q) = stepResults ?mid (stepId q) \<and>
      (\<exists>v. er_stepResults ?r (stepId q) = Some (succeeded v))"
    using before kept by simp
  moreover have "\<forall>q \<in> set post. er_stepResults ?r (stepId q) = None"
    using after by simp
  moreover have "er_invoked ?r = map stepId pre"
    using inv by simp
  ultimately show ?thesis
    using ex by blast
qed

lemma example_run_first:
  "overallSuccess (runSteps lengthEngine [fileProcessor] (dataFlow examplePlan) [exampleStep1] initialState)"
  by (simp add: getToolInstance_def fileProcessor_def exampleStep1_def examplePlan_def
      transformInputParams_def executeTool_def executeDeclarativeTool_def executeHttpTool_def
      initialState_def)

theorem C4_missing_tool_witness:
  "steps examplePlan = Some ([exampleStep1] @ exampleStep2 # [exampleStep3]) \<and>
   canExecute examplePlan \<and>
   getToolInstance [fileProcessor] (toolId exampleStep2) = None \<and>
   (\<exists>r. executeRequest lengthEngine [fileProcessor] examplePlan = Inr (Ran r) \<and>
        er_success r = False \<and>
        er_error r = Some ''Tool visualization-creator not found'' \<and>
        (\<exists>v. er_stepResults r ''step_1'' = Some (succeeded v)) \<and>
        er_stepResults r ''step_2'' = Some (failed ''Tool visualization-creator not found'') \<and>
        er_stepResults r ''step_3'' = None \<and>
        er_invoked r = [''step_1''])"
proof -
  have h1: "steps examplePlan = Some ([exampleStep1] @ exampleStep2 # [exampleStep3])"
    by (simp add: examplePlan_def exampleSteps_def)
  have h2: "canExecute examplePlan"
    by (simp add: examplePlan_def)
  have h3: "distinct (map stepId ([exampleStep1] @ exampleStep2 # [exampleStep3]))"
    by (simp add: exampleStep1_def exampleStep2_def exampleStep3_def)
  have h5: "getToolInstance [fileProcessor] (toolId exampleStep2) = None"
    by (simp add: getToolInstance_def fileProcessor_def exampleStep2_def)
  have ids: "stepId exampleStep1 = ''step_1''" "stepId exampleStep2 = ''step_2''"
    "stepId exampleStep3 = ''step_3''" "render (toolId exampleStep2) = ''visualization-creator''"
    by (simp_all add: exampleStep1_def exampleStep2_def exampleStep3_def render_def)
  from C4_missing_tool [OF h1 h2 h3 example_run_first h5] obtain r where
    r: "executeRequest lengthEngine [fileProcessor] examplePlan = Inr (Ran r)"
    and a: "er_success r = False" "er_error r = Some (''Tool '' @ render (toolId exampleStep2) @ '' not found'')"
    and b: "\<forall>q \<in> set [exampleStep1]. \<exists>v. er_stepResults r (stepId q) = Some (succeeded v)"
    and c: "er_stepResults r (stepId exampleStep2) =
              Some (failed (''Tool '' @ render (toolId exampleStep2) @ '' not found''))"
    and d: "\<forall>q \<in> set [exampleStep3]. er_stepResults r (stepId q) = None"
    and e: "er_invoked r = map stepId [exampleStep1]"
    by blast
  have "er_success r = False \<and>
        er_error r = Some ''Tool visualization-creator not found'' \<and>
        (\<exists>v. er_stepResults r ''step_1'' = Some (succeeded v)) \<and>
        er_stepResults r ''step_2'' = Some (failed ''Tool visualization-creator not found'') \<and>
        er_stepResults r ''step_3'' = None \<and>
        er_invoked r = [''step_1'']"
    using a b c d e by (simp add: ids)
  then show ?thesis
    using h1 h2 h5 r by blast
qed

lemma no_steps_throws:
  "steps p = None \<Longrightarrow>
     executeRequest eng tools p =
       Inl (TypeError (''Cannot read properties of undefined (reading '' @ quoted ''length'' @ '')''))"
  by (simp add: executeRequest_def)

lemma no_match_plan:
  assumes "an_matchedTools a = []"
  shows "steps (createExecutionPlan now rnd a) = None"
    and "canExecute (createExecutionPlan now rnd a) = False"
    and "reason (createExecutionPlan now rnd a) = Some ''No suitable tools found''"
    and "suggestedTools (createExecutionPlan now rnd a) =
           Some (suggestToolsToCreate (an_intents a) (an_entities a))"
  using assms by (simp_all add: createExecutionPlan_def)

lemma example_no_tools: "an_matchedTools (analyzeRequest [] exampleQuery) = []"
  by (simp add: analyzeRequest_def Let_def matchToolsToIntents_def sortByScoreDesc_def)

text \<open>
  Claim C3 says that executing a plan that cannot be executed returns a structured
  failure and lets no exception escape. For the plan that \<open>createExecutionPlan\<close> returns
  when no tool matched (here: the quick-start query against an empty registry) the
  executor throws instead: the plan has no \<open>steps\<close>, and the first statement of
  \<open>executeRequest\<close> reads \<open>plan.steps.length\<close> before \<open>canExecute\<close> is tested.
\<close>

theorem C3_no_match_plan_throws:
  "an_matchedTools (analyzeRequest [] exampleQuery) = [] \<and>
   canExecute (createExecutionPlan 1700000000000 42 (analyzeRequest [] exampleQuery)) = False \<and>
   reason (createExecutionPlan 1700000000000 42 (analyzeRequest [] exampleQuery)) =
     Some ''No suitable tools found'' \<and>
   executeRequest lengthEngine [] (createExecutionPlan 1700000000000 42 (analyzeRequest [] exampleQuery)) =
     Inl (TypeError (''Cannot read properties of undefined (reading '' @ quoted ''length'' @ '')''))"
  using example_no_tools no_match_plan [OF example_no_tools] no_steps_throws
  by simp

lemma refused_when_steps_present:
  assumes "steps p = Some sts" "\<not> canExecute p"
  shows "executeRequest eng tools p =
           Inr (Refused \<lparr>rf_success = False,
                         rf_reason = (if truthyStr (reason p) then render (reason p)
                                      else ''Plan cannot be executed''),
                         rf_suggestedTools = suggestedTools p\<rparr>)"
  using assms by (simp add: executeRequest_def)

end
